theory Spec2Isabelle
  imports Main
begin

section \<open>Data model of the page session controller (page.ts)\<close>

text \<open>
  Values that can be thrown. \<open>Error\<close> is \<^verbatim>\<open>new Error(msg)\<close>; \<open>TypeError\<close> is what the
  runtime raises when a member of \<^verbatim>\<open>undefined\<close> is read or called.
\<close>

datatype js_error = Error string | TypeError string

record browser_error =
  message :: string
  statusCode :: "int option"

text \<open>
  \<^verbatim>\<open>Puppeteer.HTTPResponse\<close> as far as page.ts reads it: \<^verbatim>\<open>status()\<close>, \<^verbatim>\<open>ok()\<close> and
  \<^verbatim>\<open>request().redirectChain()\<close>.
\<close>

record http_response =
  status :: int
  ok :: bool
  redirectChain :: "string list"

record puppeteer_page =
  url :: string
  title :: string
  isClosed :: bool

record puppeteer_browser =
  version :: string
  newPage :: puppeteer_page

record browser_start_options =
  browserExecutablePath :: "string option"
  browserWSEndpoint :: "string option"

text \<open>What the logger received: one entry per \<^verbatim>\<open>logError\<close> / \<^verbatim>\<open>logWarn\<close> call.\<close>

datatype log_entry =
  LogError string "(string \<times> string) list"
| LogWarn string "(string \<times> string) list"

text \<open>Calls made to the collaborators, in order.\<close>

datatype call =
  Launch "string option"
| Connect string
| BrowserClose
| Navigate string
| Analyze
| ScanPageForPrivacy

text \<open>
  Modelled from the spec: web-driver.ts is not part of the sources. The driver remembers
  the browser handle it launched or connected to, so that \<^verbatim>\<open>close()\<close> can release it.
\<close>

record web_driver =
  launched :: "puppeteer_browser option"

text \<open>
  The fields of class \<^verbatim>\<open>Page\<close>, followed by the state of the injected collaborators:
  \<open>webDriver\<close> and \<open>logger\<close> are \<open>None\<close> when the reference is \<^verbatim>\<open>undefined\<close>
  (the logger is injected as optional), \<open>logger\<close> holds what has been logged, and
  \<open>calls\<close> is the trace of collaborator calls.
\<close>

record session =
  requestUrl :: "string option"
  page :: "puppeteer_page option"
  browser :: "puppeteer_browser option"
  lastNavigationResponse :: "http_response option"
  lastBrowserError :: "browser_error option"
  webDriver :: "web_driver option"
  logger :: "log_entry list option"
  calls :: "call list"

subsection \<open>Scan results\<close>

record axe_results =
  axe_url :: string
  violations :: "string list"

record consent_result =
  cookiesUsedForConsent :: string
  consent_error :: "string option"

record privacy_results =
  cookieCollectionConsentResults :: "consent_result list"
  navigationalUri :: string
  httpStatusCode :: "int option"
  seedUri :: "string option"

text \<open>The \<^verbatim>\<open>error\<close> field of a scan result is \<^verbatim>\<open>BrowserError | string\<close>.\<close>

datatype scan_error = BrowserErr browser_error | Message string

text \<open>
  \<^verbatim>\<open>PrivacyScanResult\<close> is \<open>privacy_results scan_result\<close>; \<^verbatim>\<open>AxeScanResults\<close> has the
  same four optional fields and the page metadata. An absent field is \<open>None\<close>.
\<close>

record 'r scan_result =
  results :: "'r option"
  pageResponseCode :: "int option"
  error :: "scan_error option"
  scannedUrl :: "string option"

type_synonym privacy_scan_result = "privacy_results scan_result"

record axe_scan_results = "axe_results scan_result" +
  pageTitle :: "string option"
  browserSpec :: "string option"
  userAgent :: "string option"
  browserResolution :: "string option"

text \<open>
  The object \<^verbatim>\<open>{ error: lastBrowserError, pageResponseCode: lastBrowserError.statusCode }\<close>
  that the gate returns without running the action.
\<close>

record navigation_failure =
  nf_error :: browser_error
  nf_pageResponseCode :: "int option"

subsection \<open>Collaborators\<close>

text \<open>
  One call of \<^verbatim>\<open>pageNavigator.navigate(url, page, onError)\<close>: the response it resolves to
  (\<open>None\<close> for \<^verbatim>\<open>undefined\<close>), the browser errors it hands to the callback, in order, and
  the URL and the title that the page shows afterwards. The navigator is a function of the
  URL and of the page handle it is given.
\<close>

record page_navigation =
  nav_response :: "http_response option"
  nav_errors :: "browser_error list"
  nav_url :: string
  nav_title :: string

record reload_page_response =
  success :: bool
  reload_error :: "browser_error option"

text \<open>
  One run of \<^verbatim>\<open>privacyPageScanner.scanPageForPrivacy(page, reloadPageFunc)\<close>, as the
  controller sees it: the engine returns its results, throws, or calls the reload callback
  with a page and goes on according to what the callback returned.
\<close>

datatype privacy_scan =
  Return privacy_results
| Throw js_error
| Reload puppeteer_page "reload_page_response \<Rightarrow> privacy_scan"

record axe_puppeteer =
  analyze :: "js_error + axe_results"

datatype js_value = ThrownValue js_error | BrowserErrorValue browser_error

text \<open>
  The collaborators and library functions that page.ts calls and that are not part of the
  sources; every theorem holds for all of them. \<open>launch\<close> and \<open>connect\<close> are what the web
  driver obtains from the browser process.
\<close>

record deps =
  serializeError :: "js_value \<Rightarrow> string"
  jsonStringify :: "string list \<Rightarrow> string"
  launch :: "string option \<Rightarrow> js_error + puppeteer_browser"
  connect :: "string \<Rightarrow> js_error + puppeteer_browser"
  navigate :: "string \<Rightarrow> puppeteer_page option \<Rightarrow> page_navigation"
  getUserAgent :: string
  getBrowserResolution :: string
  createAxePuppeteer :: "puppeteer_page option \<Rightarrow> string option \<Rightarrow> axe_puppeteer"
  scanPageForPrivacy :: "puppeteer_page option \<Rightarrow> privacy_scan"

section \<open>Library functions\<close>

text \<open>
  \<^verbatim>\<open>encodeURI\<close> on a string given as its UTF-8 bytes: every byte is escaped as \<^verbatim>\<open>%XX\<close>
  except the letters, the digits and \<^verbatim>\<open>; / ? : @ & = + $ , - _ . ! ~ * ' ( ) #\<close>.
\<close>

definition uriUnescaped :: "char list" where
  "uriUnescaped =
     ''ABCDEFGHIJKLMNOPQRSTUVWXYZabcdefghijklmnopqrstuvwxyz0123456789;/?:@&=+$,-_.!~*()#''
       @ [CHR 0x27]"

definition hexDigit :: "nat \<Rightarrow> char" where
  "hexDigit n = ''0123456789ABCDEF'' ! n"

definition encodeURI :: "string \<Rightarrow> string" where
  "encodeURI u =
     concat (map (\<lambda>c. if c \<in> set uriUnescaped then [c]
                       else [CHR ''%'', hexDigit (of_char c div 16), hexDigit (of_char c mod 16)]) u)"

section \<open>The controller\<close>

text \<open>\<^verbatim>\<open>this.logger?.logError(m, props)\<close> and \<^verbatim>\<open>this.logger?.logWarn(m, props)\<close>.\<close>

definition logError :: "string \<Rightarrow> (string \<times> string) list \<Rightarrow> session \<Rightarrow> session" where
  "logError m props s = s\<lparr>logger := map_option (\<lambda>l. l @ [LogError m props]) (logger s)\<rparr>"

definition logWarn :: "string \<Rightarrow> (string \<times> string) list \<Rightarrow> session \<Rightarrow> session" where
  "logWarn m props s = s\<lparr>logger := map_option (\<lambda>l. l @ [LogWarn m props]) (logger s)\<rparr>"

text \<open>The constructor: every field of \<^verbatim>\<open>Page\<close> is \<^verbatim>\<open>undefined\<close>.\<close>

definition newSession :: "web_driver option \<Rightarrow> log_entry list option \<Rightarrow> session" where
  "newSession wd lg =
     \<lparr>requestUrl = None, page = None, browser = None, lastNavigationResponse = None,
      lastBrowserError = None, webDriver = wd, logger = lg, calls = []\<rparr>"

subsection \<open>Session lifecycle\<close>

text \<open>
  Modelled from the spec: \<^verbatim>\<open>WebDriver.launch\<close> (web-driver.ts) is missing. Launching may
  fail with a process-level fault; on success the driver keeps the browser handle.
\<close>

definition webDriverLaunch ::
  "deps \<Rightarrow> web_driver \<Rightarrow> string option \<Rightarrow> session \<Rightarrow> (js_error + puppeteer_browser) \<times> session" where
  "webDriverLaunch d wd path s =
     (case launch d path of
        Inl e \<Rightarrow> (Inl e, s\<lparr>calls := calls s @ [Launch path]\<rparr>)
      | Inr b \<Rightarrow> (Inr b, s\<lparr>webDriver := Some (wd\<lparr>launched := Some b\<rparr>),
                             calls := calls s @ [Launch path]\<rparr>))"

text \<open>
  Modelled from the spec: \<^verbatim>\<open>WebDriver.connect\<close> (web-driver.ts) is missing. Connecting to
  the endpoint may fail with a process-level fault; on success the driver keeps the browser
  handle.
\<close>

definition webDriverConnect ::
  "deps \<Rightarrow> web_driver \<Rightarrow> string \<Rightarrow> session \<Rightarrow> (js_error + puppeteer_browser) \<times> session" where
  "webDriverConnect d wd endpoint s =
     (case connect d endpoint of
        Inl e \<Rightarrow> (Inl e, s\<lparr>calls := calls s @ [Connect endpoint]\<rparr>)
      | Inr b \<Rightarrow> (Inr b, s\<lparr>webDriver := Some (wd\<lparr>launched := Some b\<rparr>),
                             calls := calls s @ [Connect endpoint]\<rparr>))"

text \<open>
  Modelled from the spec: \<^verbatim>\<open>WebDriver.close\<close> (web-driver.ts) is missing. It releases the
  browser handle if the driver holds one, which closes the page opened on that browser, and
  does nothing otherwise.
\<close>

definition webDriverClose :: "web_driver \<Rightarrow> session \<Rightarrow> session" where
  "webDriverClose wd s =
     (case launched wd of
        None \<Rightarrow> s
      | Some b \<Rightarrow> s\<lparr>webDriver := Some (wd\<lparr>launched := None\<rparr>),
                     page := map_option (\<lambda>p. p\<lparr>isClosed := True\<rparr>) (page s),
                     calls := calls s @ [BrowserClose]\<rparr>)"

definition create ::
  "deps \<Rightarrow> browser_start_options option \<Rightarrow> session \<Rightarrow> (js_error + unit) \<times> session" where
  "create d options s =
     (case webDriver s of
        None \<Rightarrow> (Inl (TypeError ''Cannot read properties of undefined (webDriver)''), s)
      | Some wd \<Rightarrow>
          (case (case Option.bind options browserWSEndpoint of
                   Some endpoint \<Rightarrow> webDriverConnect d wd endpoint s
                 | None \<Rightarrow> webDriverLaunch d wd (Option.bind options browserExecutablePath) s) of
             (Inl e, s1) \<Rightarrow> (Inl e, s1)
           | (Inr b, s1) \<Rightarrow> (Inr (), s1\<lparr>browser := Some b, page := Some (newPage b)\<rparr>)))"

definition close :: "session \<Rightarrow> (js_error + unit) \<times> session" where
  "close s =
     (case webDriver s of
        Some wd \<Rightarrow> (Inr (), webDriverClose wd s)
      | None \<Rightarrow> (Inr (), s))"

definition isOpen :: "session \<Rightarrow> bool" where
  "isOpen s =
     ((case page s of None \<Rightarrow> False | Some p \<Rightarrow> \<not> isClosed p)
      \<and> lastBrowserError s = None \<and> lastNavigationResponse s \<noteq> None)"

text \<open>
  The first conjunct of \<open>isOpen\<close>, and whether the web driver holds a browser handle.
\<close>

definition pageOpen :: "session \<Rightarrow> bool" where
  "pageOpen s = (case page s of None \<Rightarrow> False | Some p \<Rightarrow> \<not> isClosed p)"

definition holdsBrowser :: "session \<Rightarrow> bool" where
  "holdsBrowser s = (case webDriver s of None \<Rightarrow> False | Some w \<Rightarrow> launched w \<noteq> None)"

subsection \<open>Navigation\<close>

text \<open>The error callback that \<^verbatim>\<open>navigateToUrl\<close> hands to the navigator.\<close>

definition onNavigationError :: "deps \<Rightarrow> browser_error \<Rightarrow> session \<Rightarrow> session" where
  "onNavigationError d browserError s =
     (logError ''Page navigation error''
        [(''browserError'', serializeError d (BrowserErrorValue browserError))] s)
       \<lparr>lastBrowserError := Some browserError\<rparr>"

definition navigateToUrl :: "deps \<Rightarrow> string \<Rightarrow> session \<Rightarrow> session" where
  "navigateToUrl d u s =
     (let s1 = s\<lparr>requestUrl := Some u, lastBrowserError := None\<rparr>;
          nav = navigate d u (page s1);
          s2 = s1\<lparr>page := map_option (\<lambda>p. p\<lparr>url := nav_url nav, title := nav_title nav\<rparr>)
                              (page s1),
                   calls := calls s1 @ [Navigate u]\<rparr>;
          s3 = fold (onNavigationError d) (nav_errors nav) s2
      in s3\<lparr>lastNavigationResponse := nav_response nav\<rparr>)"

subsection \<open>The gate\<close>

definition runIfNavigationSucceeded ::
  "(session \<Rightarrow> (js_error + 'a) \<times> session) \<Rightarrow> session
     \<Rightarrow> (js_error + (navigation_failure + 'a)) \<times> session" where
  "runIfNavigationSucceeded action s =
     (case lastBrowserError s of
        Some e \<Rightarrow> (Inr (Inl \<lparr>nf_error = e, nf_pageResponseCode = statusCode e\<rparr>), s)
      | None \<Rightarrow>
          if \<not> isOpen s
          then (Inl (Error ''Page is not ready. Call create() and navigateToUrl() before scan.''), s)
          else (case action s of
                  (Inl e, s') \<Rightarrow> (Inl e, s')
                | (Inr r, s') \<Rightarrow> (Inr (Inr r), s')))"

subsection \<open>Accessibility scan\<close>

definition scanPageForIssues ::
  "deps \<Rightarrow> string option \<Rightarrow> session \<Rightarrow> (js_error + axe_scan_results) \<times> session" where
  "scanPageForIssues d contentSourcePath s =
     (let axePuppeteer = createAxePuppeteer d (page s) contentSourcePath;
          s0 = s\<lparr>calls := calls s @ [Analyze]\<rparr>
      in case analyze axePuppeteer of
           Inl err \<Rightarrow>
             (case page s0 of
                None \<Rightarrow> (Inl (TypeError ''Cannot read properties of undefined (reading url)''), s0)
              | Some p \<Rightarrow>
                  (Inr \<lparr>results = None, pageResponseCode = None,
                        error = Some (Message (''Axe core engine error. ''
                                                @ serializeError d (ThrownValue err))),
                        scannedUrl = Some (url p),
                        pageTitle = None, browserSpec = None, userAgent = None,
                        browserResolution = None\<rparr>,
                   logError ''Axe core engine error''
                     [(''browserError'', serializeError d (ThrownValue err)), (''url'', url p)] s0))
         | Inr axeResults \<Rightarrow>
             (case page s0 of
                None \<Rightarrow> (Inl (TypeError ''Cannot read properties of undefined (reading title)''), s0)
              | Some p \<Rightarrow>
             (case browser s0 of
                None \<Rightarrow> (Inl (TypeError ''Cannot read properties of undefined (reading version)''), s0)
              | Some b \<Rightarrow>
             (case lastNavigationResponse s0 of
                None \<Rightarrow> (Inl (TypeError ''Cannot read properties of undefined (reading status)''), s0)
              | Some response \<Rightarrow>
                  (let scanResults =
                         \<lparr>results = Some axeResults, pageResponseCode = Some (status response),
                          error = None, scannedUrl = None,
                          pageTitle = Some (title p), browserSpec = Some (version b),
                          userAgent = Some (getUserAgent d),
                          browserResolution = Some (getBrowserResolution d)\<rparr>
                   in if length (redirectChain response) > 0
                         \<or> (case requestUrl s0 of
                               None \<Rightarrow> False
                             | Some u \<Rightarrow> encodeURI u \<noteq> axe_url axeResults)
                      then (Inr (scanResults\<lparr>scannedUrl := Some (axe_url axeResults)\<rparr>),
                            logWarn ''Scanning performed on redirected page''
                              [(''redirectedUrl'', axe_url axeResults)] s0)
                      else (Inr scanResults, s0))))))"

definition scanForA11yIssues ::
  "deps \<Rightarrow> string option \<Rightarrow> session \<Rightarrow> (js_error + axe_scan_results) \<times> session" where
  "scanForA11yIssues d contentSourcePath s =
     (case runIfNavigationSucceeded (scanPageForIssues d contentSourcePath) s of
        (Inl e, s') \<Rightarrow> (Inl e, s')
      | (Inr (Inl f), s') \<Rightarrow>
          (Inr \<lparr>results = None, pageResponseCode = nf_pageResponseCode f,
                error = Some (BrowserErr (nf_error f)), scannedUrl = None,
                pageTitle = None, browserSpec = None, userAgent = None,
                browserResolution = None\<rparr>, s')
      | (Inr (Inr r), s') \<Rightarrow> (Inr r, s'))"

subsection \<open>Privacy scan\<close>

definition reloadPageFunc ::
  "deps \<Rightarrow> puppeteer_page \<Rightarrow> session \<Rightarrow> reload_page_response \<times> session" where
  "reloadPageFunc d p s =
     (let s' = navigateToUrl d (url p) s
      in (\<lparr>success = (case lastNavigationResponse s' of None \<Rightarrow> False | Some r \<Rightarrow> ok r),
           reload_error = lastBrowserError s'\<rparr>, s'))"

text \<open>Running the engine against the reload callback it was given.\<close>

primrec runPrivacyScan ::
  "(puppeteer_page \<Rightarrow> session \<Rightarrow> reload_page_response \<times> session) \<Rightarrow> privacy_scan
     \<Rightarrow> session \<Rightarrow> (js_error + privacy_results) \<times> session" where
  "runPrivacyScan reload (Return r) = (\<lambda>s. (Inr r, s))"
| "runPrivacyScan reload (Throw e) = (\<lambda>s. (Inl e, s))"
| "runPrivacyScan reload (Reload p k) =
     (\<lambda>s. case reload p s of (response, s') \<Rightarrow> runPrivacyScan reload (k response) s')"

text \<open>\<^verbatim>\<open>this.page.url()\<close>.\<close>

definition pageUrl :: "session \<Rightarrow> js_error + string" where
  "pageUrl s =
     (case page s of
        None \<Rightarrow> Inl (TypeError ''Cannot read properties of undefined (reading url)'')
      | Some p \<Rightarrow> Inr (url p))"

text \<open>Lines 164 to 171 of page.ts: the redirect check of the privacy scan.\<close>

definition flagRedirectedPage ::
  "privacy_scan_result \<Rightarrow> session \<Rightarrow> (js_error + privacy_scan_result) \<times> session" where
  "flagRedirectedPage scanResult s =
     (case lastNavigationResponse s of
        None \<Rightarrow> (Inl (TypeError ''Cannot read properties of undefined (reading request)''), s)
      | Some response \<Rightarrow>
          (case (if length (redirectChain response) > 0 then Inr True
                 else (case requestUrl s of
                         None \<Rightarrow> Inr False
                       | Some u \<Rightarrow> map_sum id (\<lambda>pu. encodeURI u \<noteq> pu) (pageUrl s))) of
             Inl e \<Rightarrow> (Inl e, s)
           | Inr False \<Rightarrow> (Inr scanResult, s)
           | Inr True \<Rightarrow>
               (case pageUrl s of
                  Inl e \<Rightarrow> (Inl e, s)
                | Inr pu \<Rightarrow>
                    (Inr (scanResult\<lparr>scannedUrl := Some pu\<rparr>),
                     logWarn ''Scanning performed on redirected page'' [(''redirectedUrl'', pu)] s))))"

text \<open>
  Lines 173 to 182 of page.ts: the errors of the sub-results. The logger is called here
  without the optional chaining used everywhere else.
\<close>

definition consentErrors :: "privacy_results \<Rightarrow> string list" where
  "consentErrors privacyResult =
     map (\<lambda>r. the (consent_error r))
       (filter (\<lambda>r. consent_error r \<noteq> None) (cookieCollectionConsentResults privacyResult))"

definition reportConsentErrors ::
  "deps \<Rightarrow> privacy_results \<Rightarrow> privacy_scan_result \<Rightarrow> session
     \<Rightarrow> (js_error + privacy_scan_result) \<times> session" where
  "reportConsentErrors d privacyResult scanResult s =
     (let errors = consentErrors privacyResult
      in case errors of
           [] \<Rightarrow> (Inr scanResult, s)
         | e0 # _ \<Rightarrow>
             (case logger s of
                None \<Rightarrow> (Inl (TypeError ''Cannot read properties of undefined (reading logError)''), s)
              | Some l \<Rightarrow>
                  (case pageUrl s of
                     Inl e \<Rightarrow> (Inl e, s)
                   | Inr pu \<Rightarrow>
                       (Inr (scanResult\<lparr>error := Some (Message e0)\<rparr>),
                        s\<lparr>logger := Some (l @ [LogError ''Failed to collect cookies for test scenario.''
                                                  [(''url'', pu), (''errors'', jsonStringify d errors)]])\<rparr>))))"

definition scanPageForCookies ::
  "deps \<Rightarrow> session \<Rightarrow> (js_error + privacy_scan_result) \<times> session" where
  "scanPageForCookies d s =
     (case lastNavigationResponse s of
        None \<Rightarrow> (Inl (TypeError ''Cannot read properties of undefined (reading status)''), s)
      | Some response0 \<Rightarrow>
          (let navigationStatusCode = status response0
           in case runPrivacyScan (reloadPageFunc d) (scanPageForPrivacy d (page s))
                     (s\<lparr>calls := calls s @ [ScanPageForPrivacy]\<rparr>) of
                (Inl err, s1) \<Rightarrow>
                  (case pageUrl s1 of
                     Inl e \<Rightarrow> (Inl e, s1)
                   | Inr pu \<Rightarrow>
                       (Inr \<lparr>results = None, pageResponseCode = None,
                             error = Some (Message (''Privacy scan engine error. ''
                                                     @ serializeError d (ThrownValue err))),
                             scannedUrl = Some pu\<rparr>,
                        logError ''Privacy scan engine error''
                          [(''browserError'', serializeError d (ThrownValue err)), (''url'', pu)] s1))
              | (Inr privacyResult, s1) \<Rightarrow>
                  (case flagRedirectedPage
                          \<lparr>results = Some (privacyResult\<lparr>httpStatusCode := Some navigationStatusCode,
                                                          seedUri := requestUrl s1\<rparr>),
                           pageResponseCode = Some navigationStatusCode,
                           error = None, scannedUrl = None\<rparr> s1 of
                     (Inl e, s2) \<Rightarrow> (Inl e, s2)
                   | (Inr scanResult, s2) \<Rightarrow> reportConsentErrors d privacyResult scanResult s2)))"

definition scanForPrivacy :: "deps \<Rightarrow> session \<Rightarrow> (js_error + privacy_scan_result) \<times> session" where
  "scanForPrivacy d s =
     (case runIfNavigationSucceeded (scanPageForCookies d) s of
        (Inl e, s') \<Rightarrow> (Inl e, s')
      | (Inr (Inl f), s') \<Rightarrow>
          (Inr \<lparr>results = None, pageResponseCode = nf_pageResponseCode f,
                error = Some (BrowserErr (nf_error f)), scannedUrl = None\<rparr>, s')
      | (Inr (Inr r), s') \<Rightarrow> (Inr r, s'))"

text \<open>
  The navigations that the reload callback performed during a run of the engine, in order:
  the page the engine handed to the callback and what the navigator answered.
\<close>

primrec reloads ::
  "deps \<Rightarrow> privacy_scan \<Rightarrow> session \<Rightarrow> (puppeteer_page \<times> page_navigation) list" where
  "reloads d (Return r) = (\<lambda>s. [])"
| "reloads d (Throw e) = (\<lambda>s. [])"
| "reloads d (Reload p k) =
     (\<lambda>s. case reloadPageFunc d p s of
             (response, s') \<Rightarrow> (p, navigate d (url p) (page s)) # reloads d (k response) s')"

subsection \<open>Sequences of operations\<close>

text \<open>
  The public methods of \<^verbatim>\<open>Page\<close> as operations, the session that one of them leaves
  (whether it returned or threw), and the session after a sequence of them. A session on
  which \<^verbatim>\<open>create()\<close> has not been called is \<open>performAll d ops (newSession wd lg)\<close> with no
  \<open>Create\<close> among \<open>ops\<close>.
\<close>

datatype operation =
  Create "browser_start_options option"
| NavigateToUrl string
| ScanForA11yIssues "string option"
| ScanForPrivacy
| Close

fun perform :: "deps \<Rightarrow> operation \<Rightarrow> session \<Rightarrow> session" where
  "perform d (Create options) s = snd (create d options s)"
| "perform d (NavigateToUrl u) s = navigateToUrl d u s"
| "perform d (ScanForA11yIssues contentSourcePath) s = snd (scanForA11yIssues d contentSourcePath s)"
| "perform d ScanForPrivacy s = snd (scanForPrivacy d s)"
| "perform d Close s = snd (close s)"

definition performAll :: "deps \<Rightarrow> operation list \<Rightarrow> session \<Rightarrow> session" where
  "performAll d ops s = fold (perform d) ops s"

fun isCreate :: "operation \<Rightarrow> bool" where
  "isCreate (Create options) = True"
| "isCreate op = False"

section \<open>Example collaborators and sessions\<close>

definition okResponse :: "int \<Rightarrow> http_response" where
  "okResponse c = \<lparr>status = c, ok = True, redirectChain = []\<rparr>"

definition blankPage :: puppeteer_page where
  "blankPage = \<lparr>url = ''about:blank'', title = [], isClosed = False\<rparr>"

definition chromium :: puppeteer_browser where
  "chromium = \<lparr>version = ''Chrome/100.0'', newPage = blankPage\<rparr>"

definition exSerialize :: "js_value \<Rightarrow> string" where
  "exSerialize v =
     (case v of
        ThrownValue (Error m) \<Rightarrow> ''Error: '' @ m
      | ThrownValue (TypeError m) \<Rightarrow> ''TypeError: '' @ m
      | BrowserErrorValue e \<Rightarrow> message e)"

text \<open>
  Collaborators whose browser always launches; the navigator, the outcome of the
  accessibility engine and the run of the privacy engine are given.
\<close>

definition exDeps ::
  "(string \<Rightarrow> puppeteer_page option \<Rightarrow> page_navigation) \<Rightarrow> (js_error + axe_results)
     \<Rightarrow> privacy_scan \<Rightarrow> deps" where
  "exDeps nav axe engine =
     \<lparr>serializeError = exSerialize,
      jsonStringify = (\<lambda>es. concat (map (\<lambda>e. e @ '';'') es)),
      launch = (\<lambda>path. Inr chromium),
      connect = (\<lambda>endpoint. Inr chromium),
      navigate = nav,
      getUserAgent = ''Mozilla/5.0'',
      getBrowserResolution = ''1920x1080'',
      createAxePuppeteer = (\<lambda>p src. \<lparr>analyze = axe\<rparr>),
      scanPageForPrivacy = (\<lambda>p. engine)\<rparr>"

text \<open>
  A navigator that answers the first navigation (the page still shows \<^verbatim>\<open>about:blank\<close>)
  with \<open>first\<close> and every later one with \<open>later\<close>.
\<close>

definition navFirstThen ::
  "page_navigation \<Rightarrow> page_navigation \<Rightarrow> string \<Rightarrow> puppeteer_page option \<Rightarrow> page_navigation" where
  "navFirstThen first later u p =
     (if map_option url p = Some ''about:blank'' then first else later)"

definition landed :: "int \<Rightarrow> string \<Rightarrow> page_navigation" where
  "landed c u =
     \<lparr>nav_response = Some (okResponse c), nav_errors = [], nav_url = u, nav_title = ''Example''\<rparr>"

definition startSession :: "log_entry list option \<Rightarrow> session" where
  "startSession lg = newSession (Some \<lparr>launched = None\<rparr>) lg"

text \<open>\<^verbatim>\<open>create()\<close> followed by \<^verbatim>\<open>navigateToUrl("http://a.test/x")\<close> on a new session.\<close>

definition readySession :: "deps \<Rightarrow> log_entry list option \<Rightarrow> session" where
  "readySession d lg = navigateToUrl d ''http://a.test/x'' (snd (create d None (startSession lg)))"

definition noErrors :: privacy_results where
  "noErrors =
     \<lparr>cookieCollectionConsentResults = [\<lparr>cookiesUsedForConsent = ''c=1'', consent_error = None\<rparr>],
      navigationalUri = ''http://a.test/x'', httpStatusCode = None, seedUri = None\<rparr>"

definition twoErrors :: privacy_results where
  "twoErrors =
     \<lparr>cookieCollectionConsentResults =
        [\<lparr>cookiesUsedForConsent = ''c=0'', consent_error = None\<rparr>,
         \<lparr>cookiesUsedForConsent = ''c=1'', consent_error = Some ''E1''\<rparr>,
         \<lparr>cookiesUsedForConsent = ''c=2'', consent_error = Some ''E2''\<rparr>],
      navigationalUri = ''http://a.test/x'', httpStatusCode = None, seedUri = None\<rparr>"

definition noViolations :: axe_results where
  "noViolations = \<lparr>axe_url = ''http://a.test/x'', violations = []\<rparr>"

definition reloadOnce :: "privacy_results \<Rightarrow> privacy_scan" where
  "reloadOnce r = Reload \<lparr>url = ''http://a.test/x'', title = ''Example'', isClosed = False\<rparr> (\<lambda>response. Return r)"

definition httpError :: "int \<Rightarrow> string \<Rightarrow> browser_error" where
  "httpError c m = \<lparr>message = m, statusCode = Some c\<rparr>"

text \<open>A navigation that hands a browser error to the callback and still resolves to a response.\<close>

definition serverError :: page_navigation where
  "serverError =
     \<lparr>nav_response = Some \<lparr>status = 500, ok = False, redirectChain = []\<rparr>,
      nav_errors = [httpError 500 ''Internal Server Error''], nav_url = ''http://a.test/x'',
      nav_title = ''Example''\<rparr>"

text \<open>A navigation that hands a browser error to the callback and resolves to \<^verbatim>\<open>undefined\<close>.\<close>

definition notFound :: page_navigation where
  "notFound =
     \<lparr>nav_response = None, nav_errors = [httpError 404 ''Not Found''],
      nav_url = ''http://a.test/x'', nav_title = ''Not Found''\<rparr>"

text \<open>A navigation to \<^verbatim>\<open>http://a.test/x\<close> that is redirected to \<^verbatim>\<open>http://a.test/y\<close>.\<close>

definition redirected :: page_navigation where
  "redirected =
     \<lparr>nav_response = Some \<lparr>status = 200, ok = True, redirectChain = [''http://a.test/x'']\<rparr>,
      nav_errors = [], nav_url = ''http://a.test/y'', nav_title = ''Example''\<rparr>"

definition reloadFailsDeps :: deps where
  "reloadFailsDeps =
     exDeps (navFirstThen (landed 200 ''http://a.test/x'') serverError) (Inr noViolations)
       (reloadOnce noErrors)"

definition reloadChangesStatusDeps :: deps where
  "reloadChangesStatusDeps =
     exDeps (navFirstThen (landed 200 ''http://a.test/x'') (landed 304 ''http://a.test/x''))
       (Inr noViolations) (reloadOnce noErrors)"

definition consentErrorsDeps :: deps where
  "consentErrorsDeps =
     exDeps (navFirstThen (landed 200 ''http://a.test/x'') (landed 200 ''http://a.test/x''))
       (Inr noViolations) (Return twoErrors)"

definition enginesThrowDeps :: deps where
  "enginesThrowDeps =
     exDeps (navFirstThen (landed 200 ''http://a.test/x'') (landed 200 ''http://a.test/x''))
       (Inl (Error ''boom'')) (Throw (Error ''boom''))"

definition navigationFailsDeps :: deps where
  "navigationFailsDeps =
     exDeps (navFirstThen notFound notFound) (Inr noViolations) (Return noErrors)"

definition violationsAtY :: axe_results where
  "violationsAtY = \<lparr>axe_url = ''http://a.test/y'', violations = [''image-alt'']\<rparr>"

definition redirectedDeps :: deps where
  "redirectedDeps =
     exDeps (navFirstThen redirected (landed 200 ''http://a.test/y''))
       (Inr violationsAtY)
       (Reload \<lparr>url = ''http://a.test/y'', title = ''Example'', isClosed = False\<rparr>
          (\<lambda>response. Return noErrors))"

definition launchFailsDeps :: deps where
  "launchFailsDeps =
     (exDeps (navFirstThen notFound notFound) (Inr noViolations) (Return noErrors))
       \<lparr>launch := (\<lambda>path. Inl (Error ''Failed to launch the browser process''))\<rparr>"

text \<open>The result of a privacy scan that met no divergence and no sub-result error.\<close>

definition privacyOk :: "int \<Rightarrow> string \<Rightarrow> privacy_results \<Rightarrow> privacy_scan_result" where
  "privacyOk c u r =
     \<lparr>results = Some (r\<lparr>httpStatusCode := Some c, seedUri := Some u\<rparr>),
      pageResponseCode = Some c, error = None, scannedUrl = None\<rparr>"

text \<open>The result of an accessibility scan of the example page.\<close>

definition axeOk :: "axe_results \<Rightarrow> string option \<Rightarrow> axe_scan_results" where
  "axeOk r scanned =
     \<lparr>results = Some r, pageResponseCode = Some 200, error = None, scannedUrl = scanned,
      pageTitle = Some ''Example'', browserSpec = Some ''Chrome/100.0'',
      userAgent = Some ''Mozilla/5.0'', browserResolution = Some ''1920x1080''\<rparr>"

section \<open>Properties of the operations\<close>

lemmas eval_defs =
  exDeps_def navFirstThen_def landed_def okResponse_def blankPage_def chromium_def
  exSerialize_def startSession_def readySession_def newSession_def noErrors_def twoErrors_def
  noViolations_def reloadOnce_def httpError_def serverError_def notFound_def redirected_def
  reloadFailsDeps_def reloadChangesStatusDeps_def consentErrorsDeps_def enginesThrowDeps_def
  navigationFailsDeps_def redirectedDeps_def launchFailsDeps_def privacyOk_def axeOk_def violationsAtY_def
  create_def webDriverLaunch_def webDriverConnect_def webDriverClose_def close_def
  navigateToUrl_def onNavigationError_def logError_def logWarn_def isOpen_def
  runIfNavigationSucceeded_def scanForA11yIssues_def scanPageForIssues_def
  scanForPrivacy_def scanPageForCookies_def reloadPageFunc_def pageUrl_def
  flagRedirectedPage_def reportConsentErrors_def consentErrors_def
  encodeURI_def uriUnescaped_def hexDigit_def Let_def

subsection \<open>Logging and navigation\<close>

lemma logWarn_fields:
  "requestUrl (logWarn m ps s) = requestUrl s"
  "page (logWarn m ps s) = page s"
  "browser (logWarn m ps s) = browser s"
  "lastNavigationResponse (logWarn m ps s) = lastNavigationResponse s"
  "lastBrowserError (logWarn m ps s) = lastBrowserError s"
  "webDriver (logWarn m ps s) = webDriver s"
  "calls (logWarn m ps s) = calls s"
  "logger (logWarn m ps s) = map_option (\<lambda>l. l @ [LogWarn m ps]) (logger s)"
  by (simp_all add: logWarn_def)

lemma fold_onNavigationError_fields:
  "requestUrl (fold (onNavigationError d) es s) = requestUrl s"
  "page (fold (onNavigationError d) es s) = page s"
  "browser (fold (onNavigationError d) es s) = browser s"
  "lastNavigationResponse (fold (onNavigationError d) es s) = lastNavigationResponse s"
  "webDriver (fold (onNavigationError d) es s) = webDriver s"
  "calls (fold (onNavigationError d) es s) = calls s"
  "(logger (fold (onNavigationError d) es s) = None) = (logger s = None)"
  "lastBrowserError (fold (onNavigationError d) es s) =
     (if es = [] then lastBrowserError s else Some (last es))"
  by (induction es arbitrary: s; simp add: onNavigationError_def logError_def)+

text \<open>
  A navigation overwrites the whole navigation state: the request URL, the response and the
  browser error are those of this navigation, whatever they were before.
\<close>

lemma navigateToUrl_fields:
  "requestUrl (navigateToUrl d u s) = Some u"
  "page (navigateToUrl d u s) =
     map_option (\<lambda>p. p\<lparr>url := nav_url (navigate d u (page s)),
                        title := nav_title (navigate d u (page s))\<rparr>) (page s)"
  "browser (navigateToUrl d u s) = browser s"
  "lastNavigationResponse (navigateToUrl d u s) = nav_response (navigate d u (page s))"
  "webDriver (navigateToUrl d u s) = webDriver s"
  "calls (navigateToUrl d u s) = calls s @ [Navigate u]"
  "(logger (navigateToUrl d u s) = None) = (logger s = None)"
  "lastBrowserError (navigateToUrl d u s) =
     (if nav_errors (navigate d u (page s)) = [] then None
      else Some (last (nav_errors (navigate d u (page s)))))"
  by (simp_all add: navigateToUrl_def Let_def fold_onNavigationError_fields)

lemma isOpen_page: "isOpen s \<Longrightarrow> \<exists>p. page s = Some p \<and> \<not> isClosed p"
  by (auto simp: isOpen_def split: option.splits)

subsection \<open>The run of the privacy engine\<close>

lemma snd_reloadPageFunc: "snd (reloadPageFunc d p s) = navigateToUrl d (url p) s"
  by (simp add: reloadPageFunc_def Let_def)

lemma fst_reloadPageFunc:
  "fst (reloadPageFunc d p s) =
     \<lparr>success = (case nav_response (navigate d (url p) (page s)) of
                   None \<Rightarrow> False | Some r \<Rightarrow> ok r),
      reload_error = (if nav_errors (navigate d (url p) (page s)) = [] then None
                      else Some (last (nav_errors (navigate d (url p) (page s)))))\<rparr>"
  by (simp add: reloadPageFunc_def Let_def navigateToUrl_fields)

lemmas run_step = case_prod_unfold snd_reloadPageFunc navigateToUrl_fields

text \<open>
  The session after the engine has run is the session before it when the callback was not
  used; otherwise its navigation state is that of the last reload.
\<close>

lemma run_requestUrl:
  "requestUrl (snd (runPrivacyScan (reloadPageFunc d) e s)) =
     (if reloads d e s = [] then requestUrl s else Some (url (fst (last (reloads d e s)))))"
proof (induction e arbitrary: s)
  case (Reload p k)
  show ?case
    by (simp add: run_step Reload.IH [OF rangeI])
qed simp_all

lemma run_lastNavigationResponse:
  "lastNavigationResponse (snd (runPrivacyScan (reloadPageFunc d) e s)) =
     (if reloads d e s = [] then lastNavigationResponse s
      else nav_response (snd (last (reloads d e s))))"
proof (induction e arbitrary: s)
  case (Reload p k)
  show ?case
    by (simp add: run_step Reload.IH [OF rangeI])
qed simp_all

lemma run_lastBrowserError:
  "lastBrowserError (snd (runPrivacyScan (reloadPageFunc d) e s)) =
     (if reloads d e s = [] then lastBrowserError s
      else (case nav_errors (snd (last (reloads d e s))) of
              [] \<Rightarrow> None | b # bs \<Rightarrow> Some (last (b # bs))))"
proof (induction e arbitrary: s)
  case (Reload p k)
  show ?case
    by (simp add: run_step Reload.IH [OF rangeI] split: list.splits)
qed simp_all

lemma run_page:
  "page (snd (runPrivacyScan (reloadPageFunc d) e s)) =
     (if reloads d e s = [] then page s
      else map_option (\<lambda>p. p\<lparr>url := nav_url (snd (last (reloads d e s))),
                              title := nav_title (snd (last (reloads d e s)))\<rparr>) (page s))"
proof (induction e arbitrary: s)
  case (Reload p k)
  show ?case
    by (simp add: run_step Reload.IH [OF rangeI] option.map_comp comp_def)
qed simp_all

lemma run_calls:
  "calls (snd (runPrivacyScan (reloadPageFunc d) e s)) =
     calls s @ map (\<lambda>r. Navigate (url (fst r))) (reloads d e s)"
proof (induction e arbitrary: s)
  case (Reload p k)
  show ?case
    by (simp add: run_step Reload.IH [OF rangeI])
qed simp_all

text \<open>The reloads of a run depend on the session only through the page handle.\<close>

lemma reloads_page_only: "page s = page t \<Longrightarrow> reloads d e s = reloads d e t"
proof (induction e arbitrary: s t)
  case (Reload p k)
  have "reloads d (k r) (navigateToUrl d (url p) s) = reloads d (k r) (navigateToUrl d (url p) t)"
    for r
    using Reload.prems by (intro Reload.IH [OF rangeI]) (simp add: navigateToUrl_fields)
  then show ?case
    using Reload.prems by (simp add: case_prod_unfold snd_reloadPageFunc fst_reloadPageFunc)
qed simp_all

lemma reloads_calls [simp]: "reloads d e (s\<lparr>calls := c\<rparr>) = reloads d e s"
  by (rule reloads_page_only) simp

subsection \<open>The steps after the privacy engine has returned\<close>

lemma flagRedirectedPage_Inr:
  assumes "flagRedirectedPage sr s = (Inr sr', s')"
  shows "\<exists>response. lastNavigationResponse s = Some response \<and>
           (if length (redirectChain response) > 0
               \<or> (\<exists>u p. requestUrl s = Some u \<and> page s = Some p \<and> encodeURI u \<noteq> url p)
            then \<exists>p. page s = Some p \<and> sr' = sr\<lparr>scannedUrl := Some (url p)\<rparr>
                   \<and> s' = logWarn ''Scanning performed on redirected page''
                              [(''redirectedUrl'', url p)] s
            else sr' = sr \<and> s' = s)"
  using assms
  by (auto simp: flagRedirectedPage_def pageUrl_def
           split: option.splits if_splits sum.splits bool.splits)

lemma flagRedirectedPage_keeps:
  assumes "flagRedirectedPage sr s = (Inr sr', s')"
  shows "results sr' = results sr" "pageResponseCode sr' = pageResponseCode sr"
    "error sr' = error sr"
    "requestUrl s' = requestUrl s" "page s' = page s"
    "lastNavigationResponse s' = lastNavigationResponse s"
    "lastBrowserError s' = lastBrowserError s"
  using flagRedirectedPage_Inr [OF assms]
  by (auto simp: logWarn_fields split: if_splits)

lemma reportConsentErrors_Inr:
  assumes "reportConsentErrors d pr sr s = (Inr sr', s')"
  shows "(case consentErrors pr of
            [] \<Rightarrow> sr' = sr \<and> s' = s
          | e0 # _ \<Rightarrow>
              \<exists>l p. logger s = Some l \<and> page s = Some p
                \<and> sr' = sr\<lparr>error := Some (Message e0)\<rparr>
                \<and> s' = s\<lparr>logger :=
                          Some (l @ [LogError ''Failed to collect cookies for test scenario.''
                                       [(''url'', url p),
                                        (''errors'', jsonStringify d (consentErrors pr))]])\<rparr>)"
  using assms
  by (auto simp: reportConsentErrors_def pageUrl_def Let_def
           split: option.splits list.splits sum.splits)

lemma reportConsentErrors_keeps:
  assumes "reportConsentErrors d pr sr s = (Inr sr', s')"
  shows "results sr' = results sr" "pageResponseCode sr' = pageResponseCode sr"
    "scannedUrl sr' = scannedUrl sr"
    "requestUrl s' = requestUrl s" "page s' = page s"
    "lastNavigationResponse s' = lastNavigationResponse s"
    "lastBrowserError s' = lastBrowserError s"
  using reportConsentErrors_Inr [OF assms]
  by (auto split: list.splits)

lemma first_consent_error:
  "(case map (\<lambda>r. the (consent_error r)) (filter (\<lambda>r. consent_error r \<noteq> None) xs) of
      [] \<Rightarrow> None | e0 # _ \<Rightarrow> Some (Message e0)) =
   (case List.find (\<lambda>r. consent_error r \<noteq> None) xs of
      None \<Rightarrow> None | Some r \<Rightarrow> map_option Message (consent_error r))"
  by (induction xs) auto

lemma consentErrors_all:
  "map Some (consentErrors pr) =
     filter (\<lambda>e. e \<noteq> None) (map consent_error (cookieCollectionConsentResults pr))"
proof -
  have "map Some (map (\<lambda>r. the (consent_error r)) (filter (\<lambda>r. consent_error r \<noteq> None) xs)) =
        filter (\<lambda>e. e \<noteq> None) (map consent_error xs)" for xs :: "consent_result list"
    by (induction xs) auto
  then show ?thesis by (simp add: consentErrors_def)
qed

lemma consentErrors_update [simp]:
  "consentErrors (pr\<lparr>httpStatusCode := c, seedUri := u\<rparr>) = consentErrors pr"
  by (simp add: consentErrors_def)

subsection \<open>What a scan that returns results went through\<close>

lemma gate_results:
  assumes "scanForPrivacy d s = (Inr res, s')" and "results res = Some pr'"
  shows "isOpen s \<and> scanPageForCookies d s = (Inr res, s')"
  using assms
  by (auto simp: scanForPrivacy_def runIfNavigationSucceeded_def
           split: option.splits prod.splits sum.splits if_splits)

lemma gate_results_axe:
  assumes "scanForA11yIssues d c s = (Inr res, s')" and "results res = Some ax"
  shows "isOpen s \<and> scanPageForIssues d c s = (Inr res, s')"
  using assms
  by (auto simp: scanForA11yIssues_def runIfNavigationSucceeded_def
           split: option.splits prod.splits sum.splits if_splits)

lemma scanPageForIssues_session:
  assumes "scanPageForIssues d c s = (x, s')"
  shows "requestUrl s' = requestUrl s" "page s' = page s"
    "lastNavigationResponse s' = lastNavigationResponse s"
    "lastBrowserError s' = lastBrowserError s"
  using assms
  by (auto simp: scanPageForIssues_def Let_def logWarn_def logError_def
           split: sum.splits option.splits if_splits)

lemma scanPageForCookies_results:
  assumes "scanPageForCookies d s = (Inr res, s')" and "results res = Some pr'"
  shows "\<exists>response0 pr s1 sr s2.
           lastNavigationResponse s = Some response0
         \<and> runPrivacyScan (reloadPageFunc d) (scanPageForPrivacy d (page s))
              (s\<lparr>calls := calls s @ [ScanPageForPrivacy]\<rparr>) = (Inr pr, s1)
         \<and> flagRedirectedPage
              \<lparr>results = Some (pr\<lparr>httpStatusCode := Some (status response0),
                                    seedUri := requestUrl s1\<rparr>),
               pageResponseCode = Some (status response0), error = None, scannedUrl = None\<rparr> s1
              = (Inr sr, s2)
         \<and> reportConsentErrors d pr sr s2 = (Inr res, s')"
  using assms
  by (auto simp: scanPageForCookies_def Let_def split: option.splits prod.splits sum.splits)

lemma scanForPrivacy_results:
  assumes "scanForPrivacy d s = (Inr res, s')" and "results res = Some pr'"
  shows "\<exists>response0 pr s1 sr s2.
           isOpen s
         \<and> lastNavigationResponse s = Some response0
         \<and> runPrivacyScan (reloadPageFunc d) (scanPageForPrivacy d (page s))
              (s\<lparr>calls := calls s @ [ScanPageForPrivacy]\<rparr>) = (Inr pr, s1)
         \<and> pr' = pr\<lparr>httpStatusCode := Some (status response0), seedUri := requestUrl s1\<rparr>
         \<and> pageResponseCode res = Some (status response0)
         \<and> flagRedirectedPage
              \<lparr>results = Some pr', pageResponseCode = Some (status response0),
               error = None, scannedUrl = None\<rparr> s1 = (Inr sr, s2)
         \<and> reportConsentErrors d pr sr s2 = (Inr res, s')"
proof -
  from gate_results [OF assms] have o: "isOpen s" and c: "scanPageForCookies d s = (Inr res, s')"
    by simp_all
  from scanPageForCookies_results [OF c assms(2)]
  obtain response0 pr s1 sr s2 where
    1: "lastNavigationResponse s = Some response0" and
    2: "runPrivacyScan (reloadPageFunc d) (scanPageForPrivacy d (page s))
              (s\<lparr>calls := calls s @ [ScanPageForPrivacy]\<rparr>) = (Inr pr, s1)" and
    3: "flagRedirectedPage
              \<lparr>results = Some (pr\<lparr>httpStatusCode := Some (status response0),
                                    seedUri := requestUrl s1\<rparr>),
               pageResponseCode = Some (status response0), error = None, scannedUrl = None\<rparr> s1
              = (Inr sr, s2)" and
    4: "reportConsentErrors d pr sr s2 = (Inr res, s')"
    by blast
  have "results res = results sr" "pageResponseCode res = pageResponseCode sr"
    using reportConsentErrors_keeps [OF 4] by simp_all
  moreover have
    "results sr = Some (pr\<lparr>httpStatusCode := Some (status response0), seedUri := requestUrl s1\<rparr>)"
    "pageResponseCode sr = Some (status response0)"
    using flagRedirectedPage_keeps [OF 3] by simp_all
  ultimately have
    5: "pr' = pr\<lparr>httpStatusCode := Some (status response0), seedUri := requestUrl s1\<rparr>" and
    6: "pageResponseCode res = Some (status response0)"
    using assms(2) by simp_all
  from o 1 2 3 4 5 6 show ?thesis by blast
qed

text \<open>The session in which a privacy scan returns its results is the one the engine left.\<close>

lemma scanForPrivacy_final_session:
  assumes "scanForPrivacy d s = (Inr res, s')" and "results res = Some pr'"
  shows "requestUrl s' = requestUrl (snd (runPrivacyScan (reloadPageFunc d)
           (scanPageForPrivacy d (page s)) (s\<lparr>calls := calls s @ [ScanPageForPrivacy]\<rparr>)))"
    "page s' = page (snd (runPrivacyScan (reloadPageFunc d)
           (scanPageForPrivacy d (page s)) (s\<lparr>calls := calls s @ [ScanPageForPrivacy]\<rparr>)))"
    "lastNavigationResponse s' = lastNavigationResponse (snd (runPrivacyScan (reloadPageFunc d)
           (scanPageForPrivacy d (page s)) (s\<lparr>calls := calls s @ [ScanPageForPrivacy]\<rparr>)))"
    "lastBrowserError s' = lastBrowserError (snd (runPrivacyScan (reloadPageFunc d)
           (scanPageForPrivacy d (page s)) (s\<lparr>calls := calls s @ [ScanPageForPrivacy]\<rparr>)))"
    "lastNavigationResponse s' \<noteq> None"
proof -
  from scanForPrivacy_results [OF assms]
  obtain response0 :: http_response and pr :: privacy_results and s1 sr s2 where
    run: "runPrivacyScan (reloadPageFunc d) (scanPageForPrivacy d (page s))
              (s\<lparr>calls := calls s @ [ScanPageForPrivacy]\<rparr>) = (Inr pr, s1)" and
    flag: "flagRedirectedPage
              \<lparr>results = Some pr', pageResponseCode = Some (status response0),
               error = None, scannedUrl = None\<rparr> s1 = (Inr sr, s2)" and
    report: "reportConsentErrors d pr sr s2 = (Inr res, s')"
    by blast
  note k1 = flagRedirectedPage_keeps [OF flag] and k2 = reportConsentErrors_keeps [OF report]
  from flagRedirectedPage_Inr [OF flag] have "lastNavigationResponse s1 \<noteq> None" by blast
  then show
    "requestUrl s' = requestUrl (snd (runPrivacyScan (reloadPageFunc d)
           (scanPageForPrivacy d (page s)) (s\<lparr>calls := calls s @ [ScanPageForPrivacy]\<rparr>)))"
    "page s' = page (snd (runPrivacyScan (reloadPageFunc d)
           (scanPageForPrivacy d (page s)) (s\<lparr>calls := calls s @ [ScanPageForPrivacy]\<rparr>)))"
    "lastNavigationResponse s' = lastNavigationResponse (snd (runPrivacyScan (reloadPageFunc d)
           (scanPageForPrivacy d (page s)) (s\<lparr>calls := calls s @ [ScanPageForPrivacy]\<rparr>)))"
    "lastBrowserError s' = lastBrowserError (snd (runPrivacyScan (reloadPageFunc d)
           (scanPageForPrivacy d (page s)) (s\<lparr>calls := calls s @ [ScanPageForPrivacy]\<rparr>)))"
    "lastNavigationResponse s' \<noteq> None"
    by (simp_all add: run k1 k2)
qed

subsection \<open>When a privacy scan returns results, and when it faults\<close>

lemma run_logger:
  "(logger (snd (runPrivacyScan (reloadPageFunc d) e s)) = None) = (logger s = None)"
proof (induction e arbitrary: s)
  case (Reload p k)
  show ?case
    by (simp add: run_step Reload.IH [OF rangeI])
qed simp_all

lemma flagRedirectedPage_returns:
  assumes "lastNavigationResponse s \<noteq> None" and "page s \<noteq> None"
  shows "\<exists>sr' s'. flagRedirectedPage sr s = (Inr sr', s') \<and> results sr' = results sr
           \<and> page s' = page s \<and> (logger s' = None) = (logger s = None)"
  using assms
  by (auto simp: flagRedirectedPage_def pageUrl_def logWarn_def split: option.splits bool.splits)

lemma flagRedirectedPage_faults:
  assumes "lastNavigationResponse s = None"
  shows "flagRedirectedPage sr s =
           (Inl (TypeError ''Cannot read properties of undefined (reading request)''), s)"
  using assms by (simp add: flagRedirectedPage_def)

lemma reportConsentErrors_returns:
  assumes "consentErrors pr = [] \<or> logger s \<noteq> None" and "page s \<noteq> None"
  shows "\<exists>sr' s'. reportConsentErrors d pr sr s = (Inr sr', s') \<and> results sr' = results sr"
  using assms
  by (auto simp: reportConsentErrors_def pageUrl_def Let_def split: list.splits)

lemma reportConsentErrors_faults:
  assumes "consentErrors pr \<noteq> []" and "logger s = None"
  shows "reportConsentErrors d pr sr s =
           (Inl (TypeError ''Cannot read properties of undefined (reading logError)''), s)"
  using assms
  by (auto simp: reportConsentErrors_def Let_def split: list.splits)

lemma scanForPrivacy_gate_passed:
  assumes "isOpen s"
  shows "scanForPrivacy d s = scanPageForCookies d s"
proof -
  from assms have "lastBrowserError s = None"
    by (simp add: isOpen_def)
  with assms show ?thesis
    by (cases "scanPageForCookies d s")
       (auto simp: scanForPrivacy_def runIfNavigationSucceeded_def split: sum.splits)
qed

text \<open>
  On a session that passes the gate, once the engine has returned its results the scan
  returns them when the last navigation left a response and the logger is there to take the
  errors of the sub-results, if there are any.
\<close>

lemma privacy_scan_returns_results:
  assumes "isOpen s"
    and "runPrivacyScan (reloadPageFunc d) (scanPageForPrivacy d (page s))
           (s\<lparr>calls := calls s @ [ScanPageForPrivacy]\<rparr>) = (Inr pr, s1)"
    and "lastNavigationResponse s1 \<noteq> None"
    and "consentErrors pr = [] \<or> logger s \<noteq> None"
  shows "\<exists>res s'. scanForPrivacy d s = (Inr res, s') \<and> results res \<noteq> None"
proof -
  from assms(1) obtain p0 where "page s = Some p0"
    using isOpen_page by blast
  moreover from assms(2)
  have s1: "s1 = snd (runPrivacyScan (reloadPageFunc d) (scanPageForPrivacy d (page s))
              (s\<lparr>calls := calls s @ [ScanPageForPrivacy]\<rparr>))"
    by simp
  ultimately have p: "page s1 \<noteq> None"
    by (simp add: run_page)
  have l: "(logger s1 = None) = (logger s = None)"
    unfolding s1 by (simp add: run_logger)
  from assms(1) obtain response0 where r0: "lastNavigationResponse s = Some response0"
    by (auto simp: isOpen_def)
  let ?sr = "\<lparr>results = Some (pr\<lparr>httpStatusCode := Some (status response0),
                                     seedUri := requestUrl s1\<rparr>),
              pageResponseCode = Some (status response0), error = None, scannedUrl = None\<rparr>"
  from flagRedirectedPage_returns [OF assms(3) p, of ?sr]
  obtain sr' s2 where f: "flagRedirectedPage ?sr s1 = (Inr sr', s2)"
    and f': "results sr' = results ?sr" "page s2 = page s1" "(logger s2 = None) = (logger s1 = None)"
    by (elim exE conjE)
  from assms(4) l f' p have "consentErrors pr = [] \<or> logger s2 \<noteq> None" "page s2 \<noteq> None"
    by auto
  from reportConsentErrors_returns [OF this, of d sr']
  obtain res s' where r: "reportConsentErrors d pr sr' s2 = (Inr res, s')"
    and r': "results res = results sr'"
    by blast
  have "scanPageForCookies d s = (Inr res, s')"
    by (simp add: scanPageForCookies_def Let_def r0 assms(2) f r)
  with r' f' show ?thesis
    by (simp add: scanForPrivacy_gate_passed [OF assms(1)])
qed

text \<open>
  A reload that resolves to \<^verbatim>\<open>undefined\<close> leaves no navigation response, and the redirect
  check after the engine reads it: the scan ends in a \<^verbatim>\<open>TypeError\<close>.
\<close>

lemma privacy_scan_faults_without_response:
  assumes "isOpen s"
    and "runPrivacyScan (reloadPageFunc d) (scanPageForPrivacy d (page s))
           (s\<lparr>calls := calls s @ [ScanPageForPrivacy]\<rparr>) = (Inr pr, s1)"
    and "lastNavigationResponse s1 = None"
  shows "scanForPrivacy d s =
           (Inl (TypeError ''Cannot read properties of undefined (reading request)''), s1)"
proof -
  from assms(1) obtain response0 where r0: "lastNavigationResponse s = Some response0"
    by (auto simp: isOpen_def)
  show ?thesis
    by (simp add: scanForPrivacy_gate_passed [OF assms(1)] scanPageForCookies_def Let_def r0
          assms(2) flagRedirectedPage_faults [OF assms(3)])
qed

text \<open>Without a logger, the errors of the sub-results end the scan in a \<^verbatim>\<open>TypeError\<close>.\<close>

lemma privacy_scan_faults_without_logger:
  assumes "isOpen s"
    and "runPrivacyScan (reloadPageFunc d) (scanPageForPrivacy d (page s))
           (s\<lparr>calls := calls s @ [ScanPageForPrivacy]\<rparr>) = (Inr pr, s1)"
    and "lastNavigationResponse s1 \<noteq> None"
    and "consentErrors pr \<noteq> []" and "logger s = None"
  shows "fst (scanForPrivacy d s) =
           Inl (TypeError ''Cannot read properties of undefined (reading logError)'')"
proof -
  from assms(1) obtain p0 where "page s = Some p0"
    using isOpen_page by blast
  moreover from assms(2)
  have s1: "s1 = snd (runPrivacyScan (reloadPageFunc d) (scanPageForPrivacy d (page s))
              (s\<lparr>calls := calls s @ [ScanPageForPrivacy]\<rparr>))"
    by simp
  ultimately have p: "page s1 \<noteq> None"
    by (simp add: run_page)
  have l: "logger s1 = None"
    unfolding s1 using assms(5) by (simp add: run_logger)
  from assms(1) obtain response0 where r0: "lastNavigationResponse s = Some response0"
    by (auto simp: isOpen_def)
  let ?sr = "\<lparr>results = Some (pr\<lparr>httpStatusCode := Some (status response0),
                                     seedUri := requestUrl s1\<rparr>),
              pageResponseCode = Some (status response0), error = None, scannedUrl = None\<rparr>"
  from flagRedirectedPage_returns [OF assms(3) p, of ?sr]
  obtain sr' s2 where f: "flagRedirectedPage ?sr s1 = (Inr sr', s2)"
    and f': "(logger s2 = None) = (logger s1 = None)"
    by (elim exE conjE)
  from f' l have "logger s2 = None"
    by simp
  note r = reportConsentErrors_faults [OF assms(4) this, of d sr']
  show ?thesis
    by (simp add: scanForPrivacy_gate_passed [OF assms(1)] scanPageForCookies_def Let_def r0
          assms(2) f r)
qed

text \<open>
  On a session that passes the gate and holds a browser handle, an accessibility scan whose
  engine returns gives the success variant.
\<close>

lemma axe_scan_returns_results:
  assumes "isOpen s" and "browser s \<noteq> None"
    and "analyze (createAxePuppeteer d (page s) contentSourcePath) = Inr ax"
  shows "\<exists>res s'. scanForA11yIssues d contentSourcePath s = (Inr res, s') \<and> results res = Some ax"
proof -
  from assms(1) obtain p where "page s = Some p"
    using isOpen_page by blast
  moreover from assms(1) have "lastBrowserError s = None" "lastNavigationResponse s \<noteq> None"
    by (simp_all add: isOpen_def)
  ultimately show ?thesis
    using assms
    by (auto simp: scanForA11yIssues_def runIfNavigationSucceeded_def scanPageForIssues_def Let_def)
qed

subsection \<open>Sessions after \<^verbatim>\<open>close()\<close>\<close>

lemma run_webDriver: "webDriver (snd (runPrivacyScan (reloadPageFunc d) e s)) = webDriver s"
proof (induction e arbitrary: s)
  case (Reload p k)
  show ?case
    by (simp add: run_step Reload.IH [OF rangeI])
qed simp_all

lemma run_pageOpen: "pageOpen (snd (runPrivacyScan (reloadPageFunc d) e s)) = pageOpen s"
  by (cases "page s") (simp_all add: pageOpen_def run_page)

lemma flagRedirectedPage_frame:
  "page (snd (flagRedirectedPage sr s)) = page s"
  "webDriver (snd (flagRedirectedPage sr s)) = webDriver s"
  by (auto simp: flagRedirectedPage_def pageUrl_def logWarn_def split: option.splits sum.splits bool.splits)

lemma reportConsentErrors_frame:
  "page (snd (reportConsentErrors d pr sr s)) = page s"
  "webDriver (snd (reportConsentErrors d pr sr s)) = webDriver s"
  by (auto simp: reportConsentErrors_def pageUrl_def Let_def split: option.splits sum.splits list.splits)

lemma scanPageForCookies_frame:
  "pageOpen (snd (scanPageForCookies d s)) = pageOpen s"
  "webDriver (snd (scanPageForCookies d s)) = webDriver s"
proof -
  let ?run = "runPrivacyScan (reloadPageFunc d) (scanPageForPrivacy d (page s))
                (s\<lparr>calls := calls s @ [ScanPageForPrivacy]\<rparr>)"
  have 1: "pageOpen (snd ?run) = pageOpen s"
    by (simp add: run_pageOpen) (simp add: pageOpen_def)
  have 2: "page (snd (scanPageForCookies d s)) = (if lastNavigationResponse s = None then page s else page (snd ?run))"
    by (simp add: scanPageForCookies_def Let_def case_prod_unfold pageUrl_def logError_def
          flagRedirectedPage_frame reportConsentErrors_frame
          split: option.splits sum.splits)
  show "pageOpen (snd (scanPageForCookies d s)) = pageOpen s"
    using 1 by (simp add: pageOpen_def 2)
  show "webDriver (snd (scanPageForCookies d s)) = webDriver s"
    by (simp add: scanPageForCookies_def Let_def case_prod_unfold pageUrl_def logError_def
          flagRedirectedPage_frame reportConsentErrors_frame run_webDriver
          split: option.splits sum.splits)
qed

lemma runIfNavigationSucceeded_session:
  "snd (runIfNavigationSucceeded action s) =
     (if lastBrowserError s = None \<and> isOpen s then snd (action s) else s)"
  by (simp add: runIfNavigationSucceeded_def case_prod_unfold split: option.splits sum.splits)

lemma scanForPrivacy_session:
  "snd (scanForPrivacy d s) =
     (if lastBrowserError s = None \<and> isOpen s then snd (scanPageForCookies d s) else s)"
proof -
  have "snd (scanForPrivacy d s) = snd (runIfNavigationSucceeded (scanPageForCookies d) s)"
    by (simp add: scanForPrivacy_def case_prod_unfold split: sum.splits)
  then show ?thesis
    by (simp add: runIfNavigationSucceeded_session)
qed

lemma scanForA11yIssues_session:
  "snd (scanForA11yIssues d c s) =
     (if lastBrowserError s = None \<and> isOpen s then snd (scanPageForIssues d c s) else s)"
proof -
  have "snd (scanForA11yIssues d c s) = snd (runIfNavigationSucceeded (scanPageForIssues d c) s)"
    by (simp add: scanForA11yIssues_def case_prod_unfold split: sum.splits)
  then show ?thesis
    by (simp add: runIfNavigationSucceeded_session)
qed

lemma scanForPrivacy_frame:
  "pageOpen (snd (scanForPrivacy d s)) = pageOpen s"
  "webDriver (snd (scanForPrivacy d s)) = webDriver s"
  by (simp_all add: scanForPrivacy_session scanPageForCookies_frame)

lemma scanForA11yIssues_frame:
  "pageOpen (snd (scanForA11yIssues d c s)) = pageOpen s"
  "webDriver (snd (scanForA11yIssues d c s)) = webDriver s"
proof -
  obtain x s' where e: "scanPageForIssues d c s = (x, s')"
    by (cases "scanPageForIssues d c s")
  then have "webDriver s' = webDriver s"
    by (auto simp: scanPageForIssues_def Let_def logWarn_def logError_def
             split: sum.splits option.splits if_splits)
  with scanPageForIssues_session(2) [OF e] e
  show "pageOpen (snd (scanForA11yIssues d c s)) = pageOpen s"
    "webDriver (snd (scanForA11yIssues d c s)) = webDriver s"
    by (simp_all add: scanForA11yIssues_session pageOpen_def)
qed

lemma navigateToUrl_frame:
  "pageOpen (navigateToUrl d u s) = pageOpen s"
  "webDriver (navigateToUrl d u s) = webDriver s"
  by (cases "page s"; simp add: pageOpen_def navigateToUrl_fields)+

text \<open>
  A page handle is only open while the web driver holds the browser. This is true of a new
  session and every operation keeps it, so it holds in every session the operations lead to.
\<close>

lemma handle_invariant:
  "pageOpen (newSession wd lg) \<longrightarrow> holdsBrowser (newSession wd lg)"
  "(pageOpen s \<longrightarrow> holdsBrowser s) \<Longrightarrow>
     pageOpen (snd (create d options s)) \<longrightarrow> holdsBrowser (snd (create d options s))"
  "(pageOpen s \<longrightarrow> holdsBrowser s) \<Longrightarrow>
     pageOpen (navigateToUrl d u s) \<longrightarrow> holdsBrowser (navigateToUrl d u s)"
  "(pageOpen s \<longrightarrow> holdsBrowser s) \<Longrightarrow>
     pageOpen (snd (close s)) \<longrightarrow> holdsBrowser (snd (close s))"
  "(pageOpen s \<longrightarrow> holdsBrowser s) \<Longrightarrow>
     pageOpen (snd (scanForA11yIssues d c s)) \<longrightarrow> holdsBrowser (snd (scanForA11yIssues d c s))"
  "(pageOpen s \<longrightarrow> holdsBrowser s) \<Longrightarrow>
     pageOpen (snd (scanForPrivacy d s)) \<longrightarrow> holdsBrowser (snd (scanForPrivacy d s))"
proof -
  show "pageOpen (newSession wd lg) \<longrightarrow> holdsBrowser (newSession wd lg)"
    by (simp add: pageOpen_def newSession_def)
  show "(pageOpen s \<longrightarrow> holdsBrowser s) \<Longrightarrow>
     pageOpen (snd (create d options s)) \<longrightarrow> holdsBrowser (snd (create d options s))"
    by (auto simp: pageOpen_def holdsBrowser_def create_def webDriverLaunch_def webDriverConnect_def
             split: option.splits sum.splits)
  show "(pageOpen s \<longrightarrow> holdsBrowser s) \<Longrightarrow>
     pageOpen (navigateToUrl d u s) \<longrightarrow> holdsBrowser (navigateToUrl d u s)"
    by (simp add: navigateToUrl_frame holdsBrowser_def)
  show "(pageOpen s \<longrightarrow> holdsBrowser s) \<Longrightarrow>
     pageOpen (snd (close s)) \<longrightarrow> holdsBrowser (snd (close s))"
    by (auto simp: pageOpen_def holdsBrowser_def close_def webDriverClose_def
             split: option.splits)
  show "(pageOpen s \<longrightarrow> holdsBrowser s) \<Longrightarrow>
     pageOpen (snd (scanForA11yIssues d c s)) \<longrightarrow> holdsBrowser (snd (scanForA11yIssues d c s))"
    by (simp add: scanForA11yIssues_frame holdsBrowser_def)
  show "(pageOpen s \<longrightarrow> holdsBrowser s) \<Longrightarrow>
     pageOpen (snd (scanForPrivacy d s)) \<longrightarrow> holdsBrowser (snd (scanForPrivacy d s))"
    by (simp add: scanForPrivacy_frame holdsBrowser_def)
qed

text \<open>
  Hence \<^verbatim>\<open>close()\<close> leaves a session that is not open, on which a scan raises the not-ready
  error unless a browser error is recorded.
\<close>

lemma closed_session_not_open:
  assumes "pageOpen s \<longrightarrow> holdsBrowser s"
  shows "\<not> isOpen (snd (close s))"
  using assms
  by (auto simp: pageOpen_def holdsBrowser_def isOpen_def close_def webDriverClose_def
           split: option.splits)

lemma closed_session_not_ready:
  assumes "pageOpen s \<longrightarrow> holdsBrowser s" and "lastBrowserError s = None"
  shows "scanForA11yIssues d c (snd (close s)) =
           (Inl (Error ''Page is not ready. Call create() and navigateToUrl() before scan.''),
            snd (close s))"
    and "scanForPrivacy d (snd (close s)) =
           (Inl (Error ''Page is not ready. Call create() and navigateToUrl() before scan.''),
            snd (close s))"
proof -
  have "lastBrowserError (snd (close s)) = None"
    using assms(2) by (simp add: close_def webDriverClose_def split: option.splits)
  moreover note closed_session_not_open [OF assms(1)]
  ultimately show "scanForA11yIssues d c (snd (close s)) =
           (Inl (Error ''Page is not ready. Call create() and navigateToUrl() before scan.''),
            snd (close s))"
    and "scanForPrivacy d (snd (close s)) =
           (Inl (Error ''Page is not ready. Call create() and navigateToUrl() before scan.''),
            snd (close s))"
    by (simp_all add: scanForA11yIssues_def scanForPrivacy_def runIfNavigationSucceeded_def)
qed

subsection \<open>Sessions reached by sequences of operations\<close>

lemma perform_invariant:
  assumes "pageOpen s \<longrightarrow> holdsBrowser s"
  shows "pageOpen (perform d op s) \<longrightarrow> holdsBrowser (perform d op s)"
  using assms handle_invariant(2-6) [of s]
  by (cases op) simp_all

lemma performAll_invariant:
  assumes "pageOpen s \<longrightarrow> holdsBrowser s"
  shows "pageOpen (performAll d ops s) \<longrightarrow> holdsBrowser (performAll d ops s)"
  using assms unfolding performAll_def
proof (induction ops arbitrary: s)
  case (Cons op ops)
  from Cons.IH [OF perform_invariant [OF Cons.prems]] show ?case
    by simp
qed simp

text \<open>Only \<^verbatim>\<open>create()\<close> sets the page handle.\<close>

lemma perform_no_page:
  assumes "page s = None" and "\<not> isCreate op"
  shows "page (perform d op s) = None"
proof -
  from assms(1) have "\<not> isOpen s"
    by (simp add: isOpen_def)
  with assms show ?thesis
    by (cases op)
       (simp_all add: navigateToUrl_fields scanForPrivacy_session scanForA11yIssues_session
          close_def webDriverClose_def split: option.splits)
qed

lemma performAll_no_page:
  assumes "page s = None" and "list_all (\<lambda>op. \<not> isCreate op) ops"
  shows "page (performAll d ops s) = None"
  using assms unfolding performAll_def
proof (induction ops arbitrary: s)
  case (Cons op ops)
  from Cons.prems have "page (perform d op s) = None"
    by (simp add: perform_no_page)
  with Cons.prems Cons.IH [of "perform d op s"] show ?case
    by simp
qed simp

lemma close_keeps_browser_error: "lastBrowserError (snd (close s)) = lastBrowserError s"
  by (simp add: close_def webDriverClose_def split: option.splits)

section \<open>The claims\<close>

subsection \<open>C1: a success result and the navigation state\<close>

text \<open>
  C1 as stated does not hold. The session is created and navigated (status 200); the privacy
  engine calls the reload callback once; that navigation hands a browser error to the
  callback and still resolves to a response (status 500). The scan returns the success
  variant, and at that moment \<open>lastBrowserError\<close> is set. (Had the reload resolved to
  \<^verbatim>\<open>undefined\<close>, the scan would have ended in a \<^verbatim>\<open>TypeError\<close> and returned nothing:
  \<open>privacy_scan_faults_without_response\<close>.)
\<close>

theorem success_result_with_browser_error_set:
  "isOpen (readySession reloadFailsDeps (Some []))
 \<and> fst (scanForPrivacy reloadFailsDeps (readySession reloadFailsDeps (Some []))) =
     Inr (privacyOk 200 ''http://a.test/x'' noErrors)
 \<and> lastBrowserError (snd (scanForPrivacy reloadFailsDeps (readySession reloadFailsDeps (Some [])))) =
     Some (httpError 500 ''Internal Server Error'')"
  by (simp add: eval_defs)

text \<open>
  C1, amended. Whenever a scan returns the success variant (a result with \<open>results\<close>), the
  gate held when the scan was called: no browser error, a navigation response, an open page.
  After an accessibility scan it still holds. After a privacy scan the navigation response is
  set and the page is open, and \<open>lastBrowserError\<close> is what the last reload left: unset when
  the callback was not used or the last reload reported no error, and the last error that
  reload reported otherwise.
\<close>

theorem success_result_gate:
  "(scanForA11yIssues d contentSourcePath s = (Inr ares, s') \<and> results ares = Some ax \<longrightarrow>
      isOpen s \<and> isOpen s')
 \<and> (scanForPrivacy d s = (Inr pres, t') \<and> results pres = Some pr \<longrightarrow>
      isOpen s \<and> lastNavigationResponse t' \<noteq> None \<and> (\<exists>p. page t' = Some p \<and> \<not> isClosed p)
    \<and> lastBrowserError t' =
        (case reloads d (scanPageForPrivacy d (page s)) s of
           [] \<Rightarrow> None
         | r # rs \<Rightarrow> (case nav_errors (snd (last (r # rs))) of
                        [] \<Rightarrow> None
                      | b # bs \<Rightarrow> Some (last (b # bs)))))"
proof (intro conjI impI)
  assume a: "scanForA11yIssues d contentSourcePath s = (Inr ares, s') \<and> results ares = Some ax"
  then have o: "isOpen s" and i: "scanPageForIssues d contentSourcePath s = (Inr ares, s')"
    using gate_results_axe by blast+
  from scanPageForIssues_session [OF i] o show "isOpen s" "isOpen s'"
    by (simp_all add: isOpen_def)
next
  assume a: "scanForPrivacy d s = (Inr pres, t') \<and> results pres = Some pr"
  then have r: "scanForPrivacy d s = (Inr pres, t')" and p: "results pres = Some pr"
    by simp_all
  from gate_results [OF r p] show o: "isOpen s" by simp
  note f = scanForPrivacy_final_session [OF r p]
  from f(5) show "lastNavigationResponse t' \<noteq> None" .
  from o obtain p0 where p0: "page s = Some p0" "\<not> isClosed p0"
    using isOpen_page by blast
  then show "\<exists>p. page t' = Some p \<and> \<not> isClosed p"
    by (simp add: f(2) run_page)
  from o have "lastBrowserError s = None" by (simp add: isOpen_def)
  then show "lastBrowserError t' =
        (case reloads d (scanPageForPrivacy d (page s)) s of
           [] \<Rightarrow> None
         | r # rs \<Rightarrow> (case nav_errors (snd (last (r # rs))) of
                        [] \<Rightarrow> None
                      | b # bs \<Rightarrow> Some (last (b # bs))))"
    by (simp add: f(4) run_lastBrowserError split: list.splits)
qed

text \<open>
  C1, amended, on the example above: both scans return the success variant on the ready
  session; the privacy scan leaves the error of its reload in \<open>lastBrowserError\<close>.
\<close>

theorem success_result_gate_witness:
  "fst (scanForA11yIssues reloadFailsDeps None (readySession reloadFailsDeps (Some []))) =
     Inr (axeOk noViolations None)
 \<and> fst (scanForPrivacy reloadFailsDeps (readySession reloadFailsDeps (Some []))) =
     Inr (privacyOk 200 ''http://a.test/x'' noErrors)
 \<and> isOpen (readySession reloadFailsDeps (Some []))
 \<and> isOpen (snd (scanForA11yIssues reloadFailsDeps None (readySession reloadFailsDeps (Some []))))
 \<and> lastNavigationResponse
      (snd (scanForPrivacy reloadFailsDeps (readySession reloadFailsDeps (Some [])))) \<noteq> None
 \<and> lastBrowserError
      (snd (scanForPrivacy reloadFailsDeps (readySession reloadFailsDeps (Some [])))) =
     (case reloads reloadFailsDeps
             (scanPageForPrivacy reloadFailsDeps (page (readySession reloadFailsDeps (Some []))))
             (readySession reloadFailsDeps (Some [])) of
        [] \<Rightarrow> None
      | r # rs \<Rightarrow> (case nav_errors (snd (last (r # rs))) of
                     [] \<Rightarrow> None
                   | b # bs \<Rightarrow> Some (last (b # bs))))"
proof -
  let ?d = reloadFailsDeps
  let ?s = "readySession reloadFailsDeps (Some [])"
  have a: "fst (scanForA11yIssues ?d None ?s) = Inr (axeOk noViolations None)"
    by (simp add: eval_defs)
  have p: "fst (scanForPrivacy ?d ?s) = Inr (privacyOk 200 ''http://a.test/x'' noErrors)"
    by (simp add: eval_defs)
  have a': "scanForA11yIssues ?d None ?s =
              (Inr (axeOk noViolations None), snd (scanForA11yIssues ?d None ?s))"
    using a by (simp add: prod_eq_iff)
  have p': "scanForPrivacy ?d ?s =
              (Inr (privacyOk 200 ''http://a.test/x'' noErrors), snd (scanForPrivacy ?d ?s))"
    using p by (simp add: prod_eq_iff)
  have ra: "results (axeOk noViolations None) = Some noViolations"
    by (simp add: axeOk_def)
  have rp: "results (privacyOk 200 ''http://a.test/x'' noErrors) =
              Some (noErrors\<lparr>httpStatusCode := Some 200, seedUri := Some ''http://a.test/x''\<rparr>)"
    by (simp add: privacyOk_def)
  from success_result_gate [of ?d None ?s "axeOk noViolations None"
      "snd (scanForA11yIssues ?d None ?s)" noViolations
      "privacyOk 200 ''http://a.test/x'' noErrors" "snd (scanForPrivacy ?d ?s)"
      "noErrors\<lparr>httpStatusCode := Some 200, seedUri := Some ''http://a.test/x''\<rparr>"]
    a p a' p' ra rp
  show ?thesis by simp
qed

subsection \<open>C2: a recorded browser error short-circuits the scan\<close>

text \<open>
  C2. When \<open>lastBrowserError\<close> is set, either scan method returns the failure variant that
  carries exactly this error and its status code, and the session is returned as it was: no
  collaborator is called, so neither engine runs. The session is not open either, so the
  not-ready check would have failed; the recorded error is answered first. After a navigation
  during which the navigator reported errors, \<open>lastBrowserError\<close> is the last one reported.
\<close>

theorem browser_error_short_circuits_scan:
  "(lastBrowserError s = Some e \<longrightarrow>
      scanForA11yIssues d contentSourcePath s =
        (Inr \<lparr>results = None, pageResponseCode = statusCode e, error = Some (BrowserErr e),
              scannedUrl = None, pageTitle = None, browserSpec = None, userAgent = None,
              browserResolution = None\<rparr>, s)
    \<and> scanForPrivacy d s =
        (Inr \<lparr>results = None, pageResponseCode = statusCode e, error = Some (BrowserErr e),
              scannedUrl = None\<rparr>, s)
    \<and> calls (snd (scanForA11yIssues d contentSourcePath s)) = calls s
    \<and> calls (snd (scanForPrivacy d s)) = calls s
    \<and> \<not> isOpen s)
 \<and> (nav_errors (navigate d u (page s0)) \<noteq> [] \<longrightarrow>
      lastBrowserError (navigateToUrl d u s0) = Some (last (nav_errors (navigate d u (page s0)))))"
  by (simp add: scanForA11yIssues_def scanForPrivacy_def runIfNavigationSucceeded_def isOpen_def
        navigateToUrl_fields)

text \<open>
  C2 on an example: the navigation reports status 404; both scans return that error with
  \<open>pageResponseCode\<close> 404 and the trace of collaborator calls is still launch and navigate.
\<close>

theorem browser_error_short_circuits_scan_witness:
  "lastBrowserError (readySession navigationFailsDeps (Some [])) = Some (httpError 404 ''Not Found'')
 \<and> nav_errors (navigate navigationFailsDeps ''http://a.test/x''
       (page (snd (create navigationFailsDeps None (startSession (Some [])))))) \<noteq> []
 \<and> fst (scanForA11yIssues navigationFailsDeps None (readySession navigationFailsDeps (Some []))) =
     Inr \<lparr>results = None, pageResponseCode = Some 404,
          error = Some (BrowserErr (httpError 404 ''Not Found'')),
          scannedUrl = None, pageTitle = None, browserSpec = None, userAgent = None,
          browserResolution = None\<rparr>
 \<and> fst (scanForPrivacy navigationFailsDeps (readySession navigationFailsDeps (Some []))) =
     Inr \<lparr>results = None, pageResponseCode = Some 404,
          error = Some (BrowserErr (httpError 404 ''Not Found'')), scannedUrl = None\<rparr>
 \<and> calls (snd (scanForPrivacy navigationFailsDeps (readySession navigationFailsDeps (Some [])))) =
     [Launch None, Navigate ''http://a.test/x'']"
proof -
  let ?d = navigationFailsDeps
  let ?t = "snd (create navigationFailsDeps None (startSession (Some [])))"
  let ?s = "readySession navigationFailsDeps (Some [])"
  have e: "lastBrowserError ?s = Some (httpError 404 ''Not Found'')"
    by (simp add: eval_defs)
  have n: "nav_errors (navigate ?d ''http://a.test/x'' (page ?t)) \<noteq> []"
    by (simp add: eval_defs)
  have c: "calls ?s = [Launch None, Navigate ''http://a.test/x'']"
    by (simp add: eval_defs)
  have sc: "statusCode (httpError 404 ''Not Found'') = Some 404"
    by (simp add: httpError_def)
  from browser_error_short_circuits_scan
         [of ?s "httpError 404 ''Not Found''" ?d None "''http://a.test/x''" ?t] e n c sc
  show ?thesis by simp
qed

subsection \<open>C3: the optional logger\<close>

text \<open>
  C3 fails on the code. The logger is injected as optional and every other logging call
  goes through \<^verbatim>\<open>this.logger?.\<close>, but the call that reports the errors of the sub-results is
  \<^verbatim>\<open>this.logger.logError(...)\<close>. On a created and navigated session without a logger, a
  privacy scan whose engine returns sub-results with errors ends in a \<^verbatim>\<open>TypeError\<close> instead of
  returning its result; with a logger the same scan returns the result carrying the first
  error.
\<close>

theorem missing_logger_faults_privacy_scan:
  "logger (readySession consentErrorsDeps None) = None
 \<and> isOpen (readySession consentErrorsDeps None)
 \<and> fst (scanForPrivacy consentErrorsDeps (readySession consentErrorsDeps None)) =
     Inl (TypeError ''Cannot read properties of undefined (reading logError)'')
 \<and> fst (scanForPrivacy consentErrorsDeps (readySession consentErrorsDeps (Some []))) =
     Inr ((privacyOk 200 ''http://a.test/x'' twoErrors)\<lparr>error := Some (Message ''E1'')\<rparr>)"
  by (simp add: eval_defs)

subsection \<open>C4: the status code of a privacy result\<close>

text \<open>
  C4. Whenever a privacy scan returns results, their \<open>httpStatusCode\<close> and the result's
  \<open>pageResponseCode\<close> are the status of the navigation response that the session held when
  the scan was called, whatever the reloads during the scan did to \<open>lastNavigationResponse\<close>.
\<close>

theorem privacy_status_code_is_pre_reload:
  assumes "scanForPrivacy d s = (Inr res, s')" and "results res = Some pr"
  shows "\<exists>response0. lastNavigationResponse s = Some response0
           \<and> httpStatusCode pr = Some (status response0)
           \<and> pageResponseCode res = Some (status response0)"
  using scanForPrivacy_results [OF assms] by auto

text \<open>
  C4 on an example: the first navigation answers 200, the reload during the scan answers
  304. The session ends with the response 304 and the result reports 200.
\<close>

theorem privacy_status_code_is_pre_reload_witness:
  "fst (scanForPrivacy reloadChangesStatusDeps (readySession reloadChangesStatusDeps (Some []))) =
     Inr (privacyOk 200 ''http://a.test/x'' noErrors)
 \<and> lastNavigationResponse (readySession reloadChangesStatusDeps (Some [])) = Some (okResponse 200)
 \<and> lastNavigationResponse
      (snd (scanForPrivacy reloadChangesStatusDeps (readySession reloadChangesStatusDeps (Some [])))) =
     Some (okResponse 304)
 \<and> (\<exists>response0.
       lastNavigationResponse (readySession reloadChangesStatusDeps (Some [])) = Some response0
     \<and> httpStatusCode (noErrors\<lparr>httpStatusCode := Some 200, seedUri := Some ''http://a.test/x''\<rparr>) =
         Some (status response0)
     \<and> pageResponseCode (privacyOk 200 ''http://a.test/x'' noErrors) = Some (status response0))"
proof -
  let ?d = reloadChangesStatusDeps
  let ?s = "readySession reloadChangesStatusDeps (Some [])"
  have p: "fst (scanForPrivacy ?d ?s) = Inr (privacyOk 200 ''http://a.test/x'' noErrors)"
    by (simp add: eval_defs)
  then have p': "scanForPrivacy ?d ?s =
              (Inr (privacyOk 200 ''http://a.test/x'' noErrors), snd (scanForPrivacy ?d ?s))"
    by (simp add: prod_eq_iff)
  have rp: "results (privacyOk 200 ''http://a.test/x'' noErrors) =
              Some (noErrors\<lparr>httpStatusCode := Some 200, seedUri := Some ''http://a.test/x''\<rparr>)"
    by (simp add: privacyOk_def)
  have b: "lastNavigationResponse ?s = Some (okResponse 200)"
    by (simp add: eval_defs)
  have a: "lastNavigationResponse (snd (scanForPrivacy ?d ?s)) = Some (okResponse 304)"
    by (simp add: eval_defs)
  from privacy_status_code_is_pre_reload [OF p' rp] p a b
  show ?thesis by simp
qed

subsection \<open>C5: the errors of the sub-results\<close>

text \<open>
  C5. Whenever a privacy scan returns results, the \<open>error\<close> of the result is the error of
  the first sub-result (in list order) that carries one, and is not set when no sub-result
  carries an error. \<open>consentErrors\<close> lists the errors of all sub-results that carry one, in
  order; when it is not empty, the last entry the logger received holds this whole list.
  Only the first of them is on the result.
\<close>

theorem first_consent_error_surfaced:
  assumes "scanForPrivacy d s = (Inr res, s')" and "results res = Some pr"
  shows "error res =
           (case List.find (\<lambda>r. consent_error r \<noteq> None) (cookieCollectionConsentResults pr) of
              None \<Rightarrow> None
            | Some r \<Rightarrow> map_option Message (consent_error r))
       \<and> map Some (consentErrors pr) =
           filter (\<lambda>e. e \<noteq> None) (map consent_error (cookieCollectionConsentResults pr))
       \<and> (case consentErrors pr of
            [] \<Rightarrow> error res = None
          | e0 # es \<Rightarrow>
              error res = Some (Message e0)
            \<and> (\<exists>l p. page s' = Some p \<and>
                 logger s' =
                   Some (l @ [LogError ''Failed to collect cookies for test scenario.''
                                [(''url'', url p),
                                 (''errors'', jsonStringify d (e0 # es))]])))"
proof -
  from scanForPrivacy_results [OF assms]
  obtain response0 :: http_response and pr0 :: privacy_results and s1 sr s2 where
    pr: "pr = pr0\<lparr>httpStatusCode := Some (status response0), seedUri := requestUrl s1\<rparr>" and
    flag: "flagRedirectedPage
              \<lparr>results = Some pr, pageResponseCode = Some (status response0),
               error = None, scannedUrl = None\<rparr> s1 = (Inr sr, s2)" and
    report: "reportConsentErrors d pr0 sr s2 = (Inr res, s')"
    by blast
  have ce: "consentErrors pr = consentErrors pr0" by (simp add: pr)
  have sr: "error sr = None" using flagRedirectedPage_keeps(3) [OF flag] by simp
  have 3: "(case consentErrors pr of
            [] \<Rightarrow> error res = None
          | e0 # es \<Rightarrow>
              error res = Some (Message e0)
            \<and> (\<exists>l p. page s' = Some p \<and>
                 logger s' =
                   Some (l @ [LogError ''Failed to collect cookies for test scenario.''
                                [(''url'', url p),
                                 (''errors'', jsonStringify d (e0 # es))]])))"
    using reportConsentErrors_Inr [OF report] sr by (auto simp: ce split: list.splits)
  then have "error res = (case consentErrors pr of [] \<Rightarrow> None | e0 # _ \<Rightarrow> Some (Message e0))"
    by (simp split: list.splits)
  then have 1: "error res =
           (case List.find (\<lambda>r. consent_error r \<noteq> None) (cookieCollectionConsentResults pr) of
              None \<Rightarrow> None
            | Some r \<Rightarrow> map_option Message (consent_error r))"
    unfolding consentErrors_def first_consent_error .
  from 1 3 consentErrors_all show ?thesis by blast
qed

text \<open>
  C5 on an example: the sub-results carry no error, \<^verbatim>\<open>E1\<close> and \<^verbatim>\<open>E2\<close>. The result reports
  \<^verbatim>\<open>E1\<close> and the logger received both.
\<close>

theorem first_consent_error_surfaced_witness:
  "fst (scanForPrivacy consentErrorsDeps (readySession consentErrorsDeps (Some []))) =
     Inr ((privacyOk 200 ''http://a.test/x'' twoErrors)\<lparr>error := Some (Message ''E1'')\<rparr>)
 \<and> consentErrors twoErrors = [''E1'', ''E2'']
 \<and> error ((privacyOk 200 ''http://a.test/x'' twoErrors)\<lparr>error := Some (Message ''E1'')\<rparr>) =
     (case List.find (\<lambda>r. consent_error r \<noteq> None) (cookieCollectionConsentResults twoErrors) of
        None \<Rightarrow> None
      | Some r \<Rightarrow> map_option Message (consent_error r))
 \<and> logger (snd (scanForPrivacy consentErrorsDeps (readySession consentErrorsDeps (Some [])))) =
     Some [LogError ''Failed to collect cookies for test scenario.''
             [(''url'', ''http://a.test/x''),
              (''errors'', jsonStringify consentErrorsDeps [''E1'', ''E2''])]]"
proof -
  let ?d = consentErrorsDeps
  let ?s = "readySession consentErrorsDeps (Some [])"
  let ?r = "(privacyOk 200 ''http://a.test/x'' twoErrors)\<lparr>error := Some (Message ''E1'')\<rparr>"
  have p: "fst (scanForPrivacy ?d ?s) = Inr ?r"
    by (simp add: eval_defs)
  then have p': "scanForPrivacy ?d ?s = (Inr ?r, snd (scanForPrivacy ?d ?s))"
    by (simp add: prod_eq_iff)
  have rp: "results ?r =
              Some (twoErrors\<lparr>httpStatusCode := Some 200, seedUri := Some ''http://a.test/x''\<rparr>)"
    by (simp add: privacyOk_def)
  have c: "consentErrors twoErrors = [''E1'', ''E2'']"
    by (simp add: consentErrors_def twoErrors_def)
  have l: "logger (snd (scanForPrivacy ?d ?s)) =
     Some [LogError ''Failed to collect cookies for test scenario.''
             [(''url'', ''http://a.test/x''), (''errors'', jsonStringify ?d [''E1'', ''E2''])]]"
    by (simp add: eval_defs)
  from first_consent_error_surfaced [OF p' rp] p c l
  show ?thesis by (simp add: twoErrors_def)
qed

subsection \<open>C6: when \<open>scannedUrl\<close> is present\<close>

text \<open>
  C6 as stated does not hold for every result of the orchestrators. When the engine throws,
  the failure result always carries \<open>scannedUrl\<close>: here the session was navigated to
  \<^verbatim>\<open>http://a.test/x\<close> without redirect, the page shows exactly the encoded request URL, and
  both scans return a result with \<open>scannedUrl\<close> present.
\<close>

theorem engine_fault_result_has_scannedUrl:
  "map_option redirectChain (lastNavigationResponse (readySession enginesThrowDeps (Some []))) = Some []
 \<and> map_option encodeURI (requestUrl (readySession enginesThrowDeps (Some []))) =
     Some ''http://a.test/x''
 \<and> map_option url (page (readySession enginesThrowDeps (Some []))) = Some ''http://a.test/x''
 \<and> fst (scanForA11yIssues enginesThrowDeps None (readySession enginesThrowDeps (Some []))) =
     Inr \<lparr>results = None, pageResponseCode = None,
          error = Some (Message ''Axe core engine error. Error: boom''),
          scannedUrl = Some ''http://a.test/x'', pageTitle = None, browserSpec = None,
          userAgent = None, browserResolution = None\<rparr>
 \<and> fst (scanForPrivacy enginesThrowDeps (readySession enginesThrowDeps (Some []))) =
     Inr \<lparr>results = None, pageResponseCode = None,
          error = Some (Message ''Privacy scan engine error. Error: boom''),
          scannedUrl = Some ''http://a.test/x''\<rparr>"
  by (simp add: eval_defs)

text \<open>
  C6, amended. For every result that carries \<open>results\<close> (the engine did not throw) of an
  accessibility scan, and of a privacy scan during which the engine did not use the reload
  callback, \<open>scannedUrl\<close> is present if and only if the scanned URL diverges from the
  requested URL: the redirect chain of the navigation response is not empty, or the
  percent-encoded requested URL differs from the currently observed page URL; it is then
  that observed URL, and it is absent when the chain is empty and the URLs match. The
  requested URL and the navigation response are those the session held when the scan was
  called. The observed URL is the one the accessibility engine reports (\<^verbatim>\<open>axeResults.url\<close>)
  in an accessibility scan and the URL of the page in a privacy scan. Nothing is said about
  privacy scans during which the engine reloads the page.
\<close>

theorem scannedUrl_marks_divergence:
  "(scanForA11yIssues d contentSourcePath s = (Inr ares, s') \<and> results ares = Some ax \<longrightarrow>
      (\<exists>response. lastNavigationResponse s = Some response \<and>
         scannedUrl ares =
           (if length (redirectChain response) > 0
               \<or> (\<exists>u. requestUrl s = Some u \<and> encodeURI u \<noteq> axe_url ax)
            then Some (axe_url ax) else None)))
 \<and> (scanForPrivacy d s = (Inr pres, t') \<and> results pres = Some pr
      \<and> reloads d (scanPageForPrivacy d (page s)) s = [] \<longrightarrow>
      (\<exists>response p. lastNavigationResponse s = Some response \<and> page s = Some p \<and>
         scannedUrl pres =
           (if length (redirectChain response) > 0
               \<or> (\<exists>u. requestUrl s = Some u \<and> encodeURI u \<noteq> url p)
            then Some (url p) else None)))"
proof (intro conjI impI)
  assume a: "scanForA11yIssues d contentSourcePath s = (Inr ares, s') \<and> results ares = Some ax"
  then have i: "scanPageForIssues d contentSourcePath s = (Inr ares, s')"
    using gate_results_axe by blast
  with a have "\<exists>response. lastNavigationResponse s' = Some response \<and>
         scannedUrl ares =
           (if length (redirectChain response) > 0
               \<or> (\<exists>u. requestUrl s' = Some u \<and> encodeURI u \<noteq> axe_url ax)
            then Some (axe_url ax) else None)"
    by (auto simp: scanPageForIssues_def Let_def logWarn_fields
             split: sum.splits option.splits if_splits)
  then show "\<exists>response. lastNavigationResponse s = Some response \<and>
         scannedUrl ares =
           (if length (redirectChain response) > 0
               \<or> (\<exists>u. requestUrl s = Some u \<and> encodeURI u \<noteq> axe_url ax)
            then Some (axe_url ax) else None)"
    unfolding scanPageForIssues_session(1,3) [OF i] .
next
  assume a: "scanForPrivacy d s = (Inr pres, t') \<and> results pres = Some pr
      \<and> reloads d (scanPageForPrivacy d (page s)) s = []"
  then have r: "scanForPrivacy d s = (Inr pres, t')" and p: "results pres = Some pr"
    and n: "reloads d (scanPageForPrivacy d (page s)) s = []"
    by simp_all
  from scanForPrivacy_results [OF r p]
  obtain response0 :: http_response and pr0 :: privacy_results and s1 sr s2 where
    o: "isOpen s" and
    run: "runPrivacyScan (reloadPageFunc d) (scanPageForPrivacy d (page s))
              (s\<lparr>calls := calls s @ [ScanPageForPrivacy]\<rparr>) = (Inr pr0, s1)" and
    flag: "flagRedirectedPage
              \<lparr>results = Some pr, pageResponseCode = Some (status response0),
               error = None, scannedUrl = None\<rparr> s1 = (Inr sr, s2)" and
    report: "reportConsentErrors d pr0 sr s2 = (Inr pres, t')"
    by blast
  from o obtain p0 where p0: "page s = Some p0"
    using isOpen_page by blast
  from run
  have s1: "s1 = snd (runPrivacyScan (reloadPageFunc d) (scanPageForPrivacy d (page s))
              (s\<lparr>calls := calls s @ [ScanPageForPrivacy]\<rparr>))"
    by simp
  have f: "requestUrl s1 = requestUrl s" "page s1 = page s"
    "lastNavigationResponse s1 = lastNavigationResponse s"
    unfolding s1 using n by (simp_all add: run_requestUrl run_page run_lastNavigationResponse)
  have k: "scannedUrl pres = scannedUrl sr"
    using reportConsentErrors_keeps [OF report] by simp
  from flagRedirectedPage_Inr [OF flag] p0
  show "\<exists>response p. lastNavigationResponse s = Some response \<and> page s = Some p \<and>
         scannedUrl pres =
           (if length (redirectChain response) > 0
               \<or> (\<exists>u. requestUrl s = Some u \<and> encodeURI u \<noteq> url p)
            then Some (url p) else None)"
    by (auto simp: f k split: if_splits)
qed

text \<open>
  C6, amended, on examples: after a redirect from \<^verbatim>\<open>http://a.test/x\<close> to
  \<^verbatim>\<open>http://a.test/y\<close> the accessibility result carries \<open>scannedUrl\<close>; after a navigation
  without redirect to a page that shows the request URL the privacy result (of an engine
  that does not reload) has none.
\<close>

theorem scannedUrl_marks_divergence_witness:
  "fst (scanForA11yIssues redirectedDeps None (readySession redirectedDeps (Some []))) =
     Inr (axeOk violationsAtY (Some ''http://a.test/y''))
 \<and> map_option redirectChain (lastNavigationResponse (readySession redirectedDeps (Some []))) =
     Some [''http://a.test/x'']
 \<and> fst (scanForPrivacy consentErrorsDeps (readySession consentErrorsDeps (Some []))) =
     Inr ((privacyOk 200 ''http://a.test/x'' twoErrors)\<lparr>error := Some (Message ''E1'')\<rparr>)
 \<and> reloads consentErrorsDeps
       (scanPageForPrivacy consentErrorsDeps (page (readySession consentErrorsDeps (Some []))))
       (readySession consentErrorsDeps (Some [])) = []
 \<and> scannedUrl ((privacyOk 200 ''http://a.test/x'' twoErrors)\<lparr>error := Some (Message ''E1'')\<rparr>) = None
 \<and> (\<exists>response.
       lastNavigationResponse (readySession redirectedDeps (Some [])) = Some response
     \<and> scannedUrl (axeOk violationsAtY (Some ''http://a.test/y'')) =
         (if length (redirectChain response) > 0
             \<or> (\<exists>u. requestUrl (readySession redirectedDeps (Some [])) = Some u
                    \<and> encodeURI u \<noteq> axe_url violationsAtY)
          then Some (axe_url violationsAtY) else None))
 \<and> (\<exists>response p.
       lastNavigationResponse (readySession consentErrorsDeps (Some [])) = Some response
     \<and> page (readySession consentErrorsDeps (Some [])) = Some p
     \<and> scannedUrl ((privacyOk 200 ''http://a.test/x'' twoErrors)\<lparr>error := Some (Message ''E1'')\<rparr>) =
         (if length (redirectChain response) > 0
             \<or> (\<exists>u. requestUrl (readySession consentErrorsDeps (Some [])) = Some u
                    \<and> encodeURI u \<noteq> url p)
          then Some (url p) else None))"
proof -
  let ?d = redirectedDeps
  let ?s = "readySession redirectedDeps (Some [])"
  let ?a = "axeOk violationsAtY (Some ''http://a.test/y'')"
  let ?e = consentErrorsDeps
  let ?t = "readySession consentErrorsDeps (Some [])"
  let ?r = "(privacyOk 200 ''http://a.test/x'' twoErrors)\<lparr>error := Some (Message ''E1'')\<rparr>"
  have a: "fst (scanForA11yIssues ?d None ?s) = Inr ?a"
    by (simp add: eval_defs)
  then have a': "scanForA11yIssues ?d None ?s = (Inr ?a, snd (scanForA11yIssues ?d None ?s))"
    by (simp add: prod_eq_iff)
  have ra: "results ?a = Some violationsAtY"
    by (simp add: axeOk_def)
  have c: "map_option redirectChain (lastNavigationResponse ?s) = Some [''http://a.test/x'']"
    by (simp add: eval_defs)
  have p: "fst (scanForPrivacy ?e ?t) = Inr ?r"
    by (simp add: eval_defs)
  then have p': "scanForPrivacy ?e ?t = (Inr ?r, snd (scanForPrivacy ?e ?t))"
    by (simp add: prod_eq_iff)
  have rp: "results ?r =
              Some (twoErrors\<lparr>httpStatusCode := Some 200, seedUri := Some ''http://a.test/x''\<rparr>)"
    by (simp add: privacyOk_def)
  have l: "reloads ?e (scanPageForPrivacy ?e (page ?t)) ?t = []"
    by (simp add: eval_defs)
  have n: "scannedUrl ?r = None"
    by (simp add: privacyOk_def)
  from scannedUrl_marks_divergence [of ?d None ?s ?a "snd (scanForA11yIssues ?d None ?s)"
      violationsAtY] a' ra
  have d: "\<exists>response.
       lastNavigationResponse ?s = Some response
     \<and> scannedUrl ?a =
         (if length (redirectChain response) > 0
             \<or> (\<exists>u. requestUrl ?s = Some u \<and> encodeURI u \<noteq> axe_url violationsAtY)
          then Some (axe_url violationsAtY) else None)"
    by blast
  from scannedUrl_marks_divergence [of ?e _ ?t _ _ _ ?r "snd (scanForPrivacy ?e ?t)"
      "twoErrors\<lparr>httpStatusCode := Some 200, seedUri := Some ''http://a.test/x''\<rparr>"] p' rp l
  have e: "\<exists>response p.
       lastNavigationResponse ?t = Some response
     \<and> page ?t = Some p
     \<and> scannedUrl ?r =
         (if length (redirectChain response) > 0
             \<or> (\<exists>u. requestUrl ?t = Some u \<and> encodeURI u \<noteq> url p)
          then Some (url p) else None)"
    by blast
  show ?thesis
    by (intro conjI a c p l n d e)
qed

text \<open>
  Outside the amended statement: a reload during a privacy scan overwrites the request URL
  and the navigation response that the redirect check reads afterwards. The session was asked
  for \<^verbatim>\<open>http://a.test/x\<close> and redirected to \<^verbatim>\<open>http://a.test/y\<close>; the accessibility scan
  reports \<open>scannedUrl\<close>, and the privacy scan, whose engine reloads the page once, does not.
\<close>

lemma reload_hides_redirect:
  "requestUrl (readySession redirectedDeps (Some [])) = Some ''http://a.test/x''
 \<and> map_option url (page (readySession redirectedDeps (Some []))) = Some ''http://a.test/y''
 \<and> map_option redirectChain (lastNavigationResponse (readySession redirectedDeps (Some []))) =
     Some [''http://a.test/x'']
 \<and> fst (scanForA11yIssues redirectedDeps None (readySession redirectedDeps (Some []))) =
     Inr (axeOk violationsAtY (Some ''http://a.test/y''))
 \<and> fst (scanForPrivacy redirectedDeps (readySession redirectedDeps (Some []))) =
     Inr (privacyOk 200 ''http://a.test/y'' noErrors)
 \<and> scannedUrl (privacyOk 200 ''http://a.test/y'' noErrors) = None"
  by (simp add: eval_defs)

subsection \<open>C7: a fault of the engine\<close>

text \<open>
  C7. On a session that passes the gate, when the accessibility engine throws, or when the
  run of the privacy engine (after any number of reloads) ends with a throw, the scan method
  does not fault: it returns the failure variant whose \<open>error\<close> is the name of the engine
  followed by the serialized error and whose \<open>scannedUrl\<close> is the URL the page shows then,
  and the fault is handed to the logger together with that URL.
\<close>

theorem engine_fault_converted:
  "(isOpen s \<and> analyze (createAxePuppeteer d (page s) contentSourcePath) = Inl e \<longrightarrow>
      (\<exists>p. page s = Some p \<and>
        scanForA11yIssues d contentSourcePath s =
          (Inr \<lparr>results = None, pageResponseCode = None,
                error = Some (Message (''Axe core engine error. ''
                                        @ serializeError d (ThrownValue e))),
                scannedUrl = Some (url p), pageTitle = None, browserSpec = None,
                userAgent = None, browserResolution = None\<rparr>,
           logError ''Axe core engine error''
             [(''browserError'', serializeError d (ThrownValue e)), (''url'', url p)]
             (s\<lparr>calls := calls s @ [Analyze]\<rparr>))))
 \<and> (isOpen s \<and> runPrivacyScan (reloadPageFunc d) (scanPageForPrivacy d (page s))
                   (s\<lparr>calls := calls s @ [ScanPageForPrivacy]\<rparr>) = (Inl e', s1) \<longrightarrow>
      (\<exists>p. page s1 = Some p \<and>
        scanForPrivacy d s =
          (Inr \<lparr>results = None, pageResponseCode = None,
                error = Some (Message (''Privacy scan engine error. ''
                                        @ serializeError d (ThrownValue e'))),
                scannedUrl = Some (url p)\<rparr>,
           logError ''Privacy scan engine error''
             [(''browserError'', serializeError d (ThrownValue e')), (''url'', url p)] s1)))"
proof (intro conjI impI)
  assume a: "isOpen s \<and> analyze (createAxePuppeteer d (page s) contentSourcePath) = Inl e"
  then obtain p where p: "page s = Some p"
    using isOpen_page by blast
  from a have "lastBrowserError s = None"
    by (simp add: isOpen_def)
  with a p show "\<exists>p. page s = Some p \<and>
        scanForA11yIssues d contentSourcePath s =
          (Inr \<lparr>results = None, pageResponseCode = None,
                error = Some (Message (''Axe core engine error. ''
                                        @ serializeError d (ThrownValue e))),
                scannedUrl = Some (url p), pageTitle = None, browserSpec = None,
                userAgent = None, browserResolution = None\<rparr>,
           logError ''Axe core engine error''
             [(''browserError'', serializeError d (ThrownValue e)), (''url'', url p)]
             (s\<lparr>calls := calls s @ [Analyze]\<rparr>))"
    by (simp add: scanForA11yIssues_def runIfNavigationSucceeded_def scanPageForIssues_def Let_def)
next
  assume a: "isOpen s \<and> runPrivacyScan (reloadPageFunc d) (scanPageForPrivacy d (page s))
                   (s\<lparr>calls := calls s @ [ScanPageForPrivacy]\<rparr>) = (Inl e', s1)"
  then obtain p0 where p0: "page s = Some p0"
    using isOpen_page by blast
  from a have s1: "s1 = snd (runPrivacyScan (reloadPageFunc d) (scanPageForPrivacy d (page s))
                   (s\<lparr>calls := calls s @ [ScanPageForPrivacy]\<rparr>))"
    by simp
  have "page s1 \<noteq> None"
    unfolding s1 using p0 by (simp add: run_page)
  then obtain p where p: "page s1 = Some p"
    by blast
  from a have "lastBrowserError s = None" "lastNavigationResponse s \<noteq> None"
    by (simp_all add: isOpen_def)
  with a p show "\<exists>p. page s1 = Some p \<and>
        scanForPrivacy d s =
          (Inr \<lparr>results = None, pageResponseCode = None,
                error = Some (Message (''Privacy scan engine error. ''
                                        @ serializeError d (ThrownValue e'))),
                scannedUrl = Some (url p)\<rparr>,
           logError ''Privacy scan engine error''
             [(''browserError'', serializeError d (ThrownValue e')), (''url'', url p)] s1)"
    by (auto simp: scanForPrivacy_def runIfNavigationSucceeded_def scanPageForCookies_def
          Let_def pageUrl_def)
qed

text \<open>
  C7 on an example: both engines throw \<^verbatim>\<open>Error("boom")\<close> on a created and navigated session.
  Each scan returns the failure variant, and the logger received the fault.
\<close>

theorem engine_fault_converted_witness:
  "isOpen (readySession enginesThrowDeps (Some []))
 \<and> analyze (createAxePuppeteer enginesThrowDeps (page (readySession enginesThrowDeps (Some []))) None) =
     Inl (Error ''boom'')
 \<and> fst (runPrivacyScan (reloadPageFunc enginesThrowDeps)
          (scanPageForPrivacy enginesThrowDeps (page (readySession enginesThrowDeps (Some []))))
          ((readySession enginesThrowDeps (Some []))
             \<lparr>calls := calls (readySession enginesThrowDeps (Some [])) @ [ScanPageForPrivacy]\<rparr>)) =
     Inl (Error ''boom'')
 \<and> fst (scanForA11yIssues enginesThrowDeps None (readySession enginesThrowDeps (Some []))) =
     Inr \<lparr>results = None, pageResponseCode = None,
          error = Some (Message ''Axe core engine error. Error: boom''),
          scannedUrl = Some ''http://a.test/x'', pageTitle = None, browserSpec = None,
          userAgent = None, browserResolution = None\<rparr>
 \<and> logger (snd (scanForA11yIssues enginesThrowDeps None (readySession enginesThrowDeps (Some [])))) =
     Some [LogError ''Axe core engine error''
             [(''browserError'', ''Error: boom''), (''url'', ''http://a.test/x'')]]
 \<and> fst (scanForPrivacy enginesThrowDeps (readySession enginesThrowDeps (Some []))) =
     Inr \<lparr>results = None, pageResponseCode = None,
          error = Some (Message ''Privacy scan engine error. Error: boom''),
          scannedUrl = Some ''http://a.test/x''\<rparr>
 \<and> logger (snd (scanForPrivacy enginesThrowDeps (readySession enginesThrowDeps (Some [])))) =
     Some [LogError ''Privacy scan engine error''
             [(''browserError'', ''Error: boom''), (''url'', ''http://a.test/x'')]]"
proof -
  let ?d = enginesThrowDeps
  let ?s = "readySession enginesThrowDeps (Some [])"
  let ?t = "?s\<lparr>calls := calls ?s @ [ScanPageForPrivacy]\<rparr>"
  have o: "isOpen ?s"
    by (simp add: eval_defs)
  have a: "analyze (createAxePuppeteer ?d (page ?s) None) = Inl (Error ''boom'')"
    by (simp add: eval_defs)
  have r: "runPrivacyScan (reloadPageFunc ?d) (scanPageForPrivacy ?d (page ?s)) ?t =
             (Inl (Error ''boom''), ?t)"
    by (simp add: eval_defs)
  have pg: "page ?s = Some \<lparr>url = ''http://a.test/x'', title = ''Example'', isClosed = False\<rparr>"
    by (simp add: eval_defs)
  have lg: "logger ?s = Some []"
    by (simp add: eval_defs)
  have se: "serializeError ?d (ThrownValue (Error ''boom'')) = ''Error: boom''"
    by (simp add: eval_defs)
  from engine_fault_converted [of ?s ?d None "Error ''boom''" "Error ''boom''" ?t] o a r pg lg se
  show ?thesis
    by (simp add: logError_def)
qed

subsection \<open>C8: scanning a session that is not ready\<close>

text \<open>
  C8 as stated does not hold: \<^verbatim>\<open>close()\<close> does not clear a recorded browser error, and the
  gate answers a recorded error before it looks at \<open>isOpen\<close>. Here \<^verbatim>\<open>create()\<close> succeeds, the
  navigation fails with status 404 and \<^verbatim>\<open>close()\<close> runs; the session is not open, and both
  scan methods return the failure result instead of raising the not-ready error.
\<close>

theorem closed_session_returns_recorded_error:
  "\<not> isOpen (performAll navigationFailsDeps
               [Create None, NavigateToUrl ''http://a.test/x'', Close] (startSession (Some [])))
 \<and> fst (scanForA11yIssues navigationFailsDeps None
          (performAll navigationFailsDeps
             [Create None, NavigateToUrl ''http://a.test/x'', Close] (startSession (Some [])))) =
     Inr \<lparr>results = None, pageResponseCode = Some 404,
          error = Some (BrowserErr (httpError 404 ''Not Found'')),
          scannedUrl = None, pageTitle = None, browserSpec = None, userAgent = None,
          browserResolution = None\<rparr>
 \<and> fst (scanForPrivacy navigationFailsDeps
          (performAll navigationFailsDeps
             [Create None, NavigateToUrl ''http://a.test/x'', Close] (startSession (Some [])))) =
     Inr \<lparr>results = None, pageResponseCode = Some 404,
          error = Some (BrowserErr (httpError 404 ''Not Found'')), scannedUrl = None\<rparr>"
  by (simp add: performAll_def eval_defs)

text \<open>
  C8, amended. Take any session that a sequence of operations leads to from a new one. If
  \<^verbatim>\<open>create()\<close> is not among them, or if \<^verbatim>\<open>close()\<close> is run on it, and no browser error is
  recorded, then \<open>isOpen\<close> is false and either scan method raises the not-ready error and
  leaves the session as it was. The same holds for every session with no recorded browser
  error on which \<open>isOpen\<close> is false. \<^verbatim>\<open>close()\<close> keeps a recorded browser error, and either scan
  method then returns the failure result that carries it.
\<close>

theorem not_ready_fault:
  fixes d :: deps and ops :: "operation list" and s :: session
    and wd :: "web_driver option" and lg :: "log_entry list option"
  defines "S \<equiv> performAll d ops (newSession wd lg)"
  defines "notReady \<equiv> Error ''Page is not ready. Call create() and navigateToUrl() before scan.''"
  shows
  "(list_all (\<lambda>op. \<not> isCreate op) ops \<and> lastBrowserError S = None \<longrightarrow>
      \<not> isOpen S
    \<and> scanForA11yIssues d contentSourcePath S = (Inl notReady, S)
    \<and> scanForPrivacy d S = (Inl notReady, S))
 \<and> (lastBrowserError S = None \<longrightarrow>
      \<not> isOpen (snd (close S))
    \<and> scanForA11yIssues d contentSourcePath (snd (close S)) = (Inl notReady, snd (close S))
    \<and> scanForPrivacy d (snd (close S)) = (Inl notReady, snd (close S)))
 \<and> (lastBrowserError s = None \<and> \<not> isOpen s \<longrightarrow>
      scanForA11yIssues d contentSourcePath s = (Inl notReady, s)
    \<and> scanForPrivacy d s = (Inl notReady, s))
 \<and> (lastBrowserError s = Some e \<longrightarrow>
      fst (scanForA11yIssues d contentSourcePath (snd (close s))) =
        Inr \<lparr>results = None, pageResponseCode = statusCode e, error = Some (BrowserErr e),
             scannedUrl = None, pageTitle = None, browserSpec = None, userAgent = None,
             browserResolution = None\<rparr>
    \<and> fst (scanForPrivacy d (snd (close s))) =
        Inr \<lparr>results = None, pageResponseCode = statusCode e, error = Some (BrowserErr e),
             scannedUrl = None\<rparr>)"
proof (intro conjI impI)
  have gate: "scanForA11yIssues d contentSourcePath t = (Inl notReady, t)
            \<and> scanForPrivacy d t = (Inl notReady, t)"
    if "lastBrowserError t = None" and "\<not> isOpen t" for t
    using that
    by (simp add: scanForA11yIssues_def scanForPrivacy_def runIfNavigationSucceeded_def
          notReady_def)
  have inv: "pageOpen S \<longrightarrow> holdsBrowser S"
    unfolding S_def by (rule performAll_invariant) (simp add: pageOpen_def newSession_def)
  {
    assume a: "list_all (\<lambda>op. \<not> isCreate op) ops \<and> lastBrowserError S = None"
    then have "page S = None"
      unfolding S_def by (intro performAll_no_page) (simp_all add: newSession_def)
    then show n: "\<not> isOpen S"
      by (simp add: isOpen_def)
    from gate [OF _ n] a
    show "scanForA11yIssues d contentSourcePath S = (Inl notReady, S)"
      and "scanForPrivacy d S = (Inl notReady, S)"
      by simp_all
  }
  {
    assume a: "lastBrowserError S = None"
    show n: "\<not> isOpen (snd (close S))"
      by (rule closed_session_not_open [OF inv])
    from a have "lastBrowserError (snd (close S)) = None"
      by (simp add: close_keeps_browser_error)
    from gate [OF this n]
    show "scanForA11yIssues d contentSourcePath (snd (close S)) = (Inl notReady, snd (close S))"
      and "scanForPrivacy d (snd (close S)) = (Inl notReady, snd (close S))"
      by simp_all
  }
  {
    assume a: "lastBrowserError s = None \<and> \<not> isOpen s"
    with gate [of s]
    show "scanForA11yIssues d contentSourcePath s = (Inl notReady, s)"
      and "scanForPrivacy d s = (Inl notReady, s)"
      by simp_all
  }
  {
    assume a: "lastBrowserError s = Some e"
    then have b: "lastBrowserError (snd (close s)) = Some e"
      by (simp add: close_keeps_browser_error)
    show "fst (scanForA11yIssues d contentSourcePath (snd (close s))) =
        Inr \<lparr>results = None, pageResponseCode = statusCode e, error = Some (BrowserErr e),
             scannedUrl = None, pageTitle = None, browserSpec = None, userAgent = None,
             browserResolution = None\<rparr>"
      by (simp add: scanForA11yIssues_def runIfNavigationSucceeded_def b)
    show "fst (scanForPrivacy d (snd (close s))) =
        Inr \<lparr>results = None, pageResponseCode = statusCode e, error = Some (BrowserErr e),
             scannedUrl = None\<rparr>"
      by (simp add: scanForPrivacy_def runIfNavigationSucceeded_def b)
  }
qed

text \<open>
  C8, amended, on examples: a session that was navigated and closed without ever being
  created; a session that was created, navigated with success and then closed; and the
  session of the example above, on which the failed navigation is recorded.
\<close>

theorem not_ready_fault_witness:
  "list_all (\<lambda>op. \<not> isCreate op) [NavigateToUrl ''http://a.test/x'', Close]
 \<and> lastBrowserError
      (performAll consentErrorsDeps [NavigateToUrl ''http://a.test/x'', Close] (startSession None)) =
     None
 \<and> scanForPrivacy consentErrorsDeps
      (performAll consentErrorsDeps [NavigateToUrl ''http://a.test/x'', Close] (startSession None)) =
     (Inl (Error ''Page is not ready. Call create() and navigateToUrl() before scan.''),
      performAll consentErrorsDeps [NavigateToUrl ''http://a.test/x'', Close] (startSession None))
 \<and> isOpen (performAll consentErrorsDeps [Create None, NavigateToUrl ''http://a.test/x'']
             (startSession None))
 \<and> lastBrowserError
      (performAll consentErrorsDeps [Create None, NavigateToUrl ''http://a.test/x'']
         (startSession None)) = None
 \<and> \<not> isOpen (snd (close (performAll consentErrorsDeps
                           [Create None, NavigateToUrl ''http://a.test/x''] (startSession None))))
 \<and> scanForA11yIssues consentErrorsDeps None
      (snd (close (performAll consentErrorsDeps
                     [Create None, NavigateToUrl ''http://a.test/x''] (startSession None)))) =
     (Inl (Error ''Page is not ready. Call create() and navigateToUrl() before scan.''),
      snd (close (performAll consentErrorsDeps
                    [Create None, NavigateToUrl ''http://a.test/x''] (startSession None))))
 \<and> scanForPrivacy consentErrorsDeps
      (snd (close (performAll consentErrorsDeps
                     [Create None, NavigateToUrl ''http://a.test/x''] (startSession None)))) =
     (Inl (Error ''Page is not ready. Call create() and navigateToUrl() before scan.''),
      snd (close (performAll consentErrorsDeps
                    [Create None, NavigateToUrl ''http://a.test/x''] (startSession None))))
 \<and> lastBrowserError (readySession navigationFailsDeps (Some [])) =
     Some (httpError 404 ''Not Found'')
 \<and> fst (scanForPrivacy navigationFailsDeps
          (snd (close (readySession navigationFailsDeps (Some []))))) =
     Inr \<lparr>results = None, pageResponseCode = statusCode (httpError 404 ''Not Found''),
          error = Some (BrowserErr (httpError 404 ''Not Found'')), scannedUrl = None\<rparr>"
proof -
  let ?d = consentErrorsDeps
  let ?u = "performAll consentErrorsDeps [NavigateToUrl ''http://a.test/x'', Close]
              (startSession None)"
  let ?c = "performAll consentErrorsDeps [Create None, NavigateToUrl ''http://a.test/x'']
              (startSession None)"
  let ?f = "readySession navigationFailsDeps (Some [])"
  have 1: "list_all (\<lambda>op. \<not> isCreate op) [NavigateToUrl ''http://a.test/x'', Close]"
    by simp
  have 2: "lastBrowserError ?u = None"
    by (simp add: performAll_def eval_defs)
  have 3: "isOpen ?c" and 4: "lastBrowserError ?c = None"
    by (simp_all add: performAll_def eval_defs)
  have 5: "lastBrowserError ?f = Some (httpError 404 ''Not Found'')"
    by (simp add: eval_defs)
  note t1 = not_ready_fault [where d = ?d and ops = "[NavigateToUrl ''http://a.test/x'', Close]"
      and wd = "Some \<lparr>launched = None\<rparr>" and lg = None and contentSourcePath = None,
      folded startSession_def]
  note t2 = not_ready_fault [where d = ?d and ops = "[Create None, NavigateToUrl ''http://a.test/x'']"
      and wd = "Some \<lparr>launched = None\<rparr>" and lg = None and contentSourcePath = None,
      folded startSession_def]
  note t3 = not_ready_fault [where d = navigationFailsDeps and s = ?f
      and e = "httpError 404 ''Not Found''"]
  from t1 1 2
  have a: "scanForPrivacy ?d ?u =
     (Inl (Error ''Page is not ready. Call create() and navigateToUrl() before scan.''), ?u)"
    by blast
  from t2 4
  have b: "\<not> isOpen (snd (close ?c))"
    and c: "scanForA11yIssues ?d None (snd (close ?c)) =
     (Inl (Error ''Page is not ready. Call create() and navigateToUrl() before scan.''),
      snd (close ?c))"
    and d: "scanForPrivacy ?d (snd (close ?c)) =
     (Inl (Error ''Page is not ready. Call create() and navigateToUrl() before scan.''),
      snd (close ?c))"
    by blast+
  from t3 5
  have e: "fst (scanForPrivacy navigationFailsDeps (snd (close ?f))) =
     Inr \<lparr>results = None, pageResponseCode = statusCode (httpError 404 ''Not Found''),
          error = Some (BrowserErr (httpError 404 ''Not Found'')), scannedUrl = None\<rparr>"
    by blast
  show ?thesis
    by (intro conjI 1 2 a 3 4 b c d 5 e)
qed

subsection \<open>C9: closing\<close>

text \<open>
  C9. \<^verbatim>\<open>close()\<close> never faults; a second \<^verbatim>\<open>close()\<close> right after the first changes nothing;
  after it the web driver holds no browser; the browser is released exactly when the web
  driver holds one, that is, when the session was created and not yet closed; and after a
  \<^verbatim>\<open>create()\<close> that failed on a session whose driver holds no browser, \<^verbatim>\<open>close()\<close> does
  nothing and does not fault.
\<close>

theorem close_idempotent:
  "fst (close s) = Inr ()
 \<and> close (snd (close s)) = (Inr (), snd (close s))
 \<and> (case webDriver (snd (close s)) of None \<Rightarrow> True | Some w \<Rightarrow> launched w = None)
 \<and> calls (snd (close s)) =
     calls s @ (case webDriver s of
                  None \<Rightarrow> []
                | Some w \<Rightarrow> (case launched w of None \<Rightarrow> [] | Some b \<Rightarrow> [BrowserClose]))
 \<and> ((case webDriver s of None \<Rightarrow> True | Some w \<Rightarrow> launched w = None)
      \<and> fst (create d options s) = Inl e \<longrightarrow>
      close (snd (create d options s)) = (Inr (), snd (create d options s)))"
  by (auto simp: close_def webDriverClose_def create_def webDriverLaunch_def webDriverConnect_def
           split: option.splits sum.splits)

text \<open>
  C9 on examples: the browser fails to launch and \<^verbatim>\<open>close()\<close> leaves the session as it is;
  on a created and navigated session the first \<^verbatim>\<open>close()\<close> releases the browser and the
  second one changes nothing.
\<close>

theorem close_idempotent_witness:
  "webDriver (startSession None) = Some \<lparr>launched = None\<rparr>
 \<and> fst (create launchFailsDeps None (startSession None)) =
     Inl (Error ''Failed to launch the browser process'')
 \<and> close (snd (create launchFailsDeps None (startSession None))) =
     (Inr (), snd (create launchFailsDeps None (startSession None)))
 \<and> calls (snd (close (readySession consentErrorsDeps None))) =
     [Launch None, Navigate ''http://a.test/x'', BrowserClose]
 \<and> close (snd (close (readySession consentErrorsDeps None))) =
     (Inr (), snd (close (readySession consentErrorsDeps None)))"
proof -
  have w: "webDriver (startSession None) = Some \<lparr>launched = None\<rparr>"
    by (simp add: eval_defs)
  have f: "fst (create launchFailsDeps None (startSession None)) =
             Inl (Error ''Failed to launch the browser process'')"
    by (simp add: eval_defs)
  have c: "calls (snd (close (readySession consentErrorsDeps None))) =
             [Launch None, Navigate ''http://a.test/x'', BrowserClose]"
    by (simp add: eval_defs)
  from close_idempotent [of "startSession None" launchFailsDeps None
         "Error ''Failed to launch the browser process''"]
    close_idempotent [of "readySession consentErrorsDeps None"] w f c
  show ?thesis
    by simp
qed

subsection \<open>C10: the seed URI of a privacy result\<close>

text \<open>
  C10. Whenever a privacy scan returns results, their \<open>seedUri\<close> is the request URL the
  session held when the scan was called if the engine did not use the reload callback, and
  otherwise the URL of the page that the engine handed to the callback at the last reload
  (the reload navigates to it and thereby overwrites the request URL).
\<close>

theorem seedUri_follows_last_reload:
  assumes "scanForPrivacy d s = (Inr res, s')" and "results res = Some pr"
  shows "seedUri pr =
           (case reloads d (scanPageForPrivacy d (page s)) s of
              [] \<Rightarrow> requestUrl s
            | r # rs \<Rightarrow> Some (url (fst (last (r # rs)))))"
proof -
  from scanForPrivacy_results [OF assms]
  obtain response0 :: http_response and pr0 :: privacy_results and s1 where
    run: "runPrivacyScan (reloadPageFunc d) (scanPageForPrivacy d (page s))
              (s\<lparr>calls := calls s @ [ScanPageForPrivacy]\<rparr>) = (Inr pr0, s1)" and
    pr: "pr = pr0\<lparr>httpStatusCode := Some (status response0), seedUri := requestUrl s1\<rparr>"
    by blast
  from run have "s1 = snd (runPrivacyScan (reloadPageFunc d) (scanPageForPrivacy d (page s))
              (s\<lparr>calls := calls s @ [ScanPageForPrivacy]\<rparr>))"
    by simp
  then have "requestUrl s1 =
     (if reloads d (scanPageForPrivacy d (page s)) s = [] then requestUrl s
      else Some (url (fst (last (reloads d (scanPageForPrivacy d (page s)) s)))))"
    by (simp add: run_requestUrl)
  with pr show ?thesis
    by (simp split: list.splits)
qed

text \<open>
  C10 on an example: the session was asked for \<^verbatim>\<open>http://a.test/x\<close> and redirected to
  \<^verbatim>\<open>http://a.test/y\<close>; the engine reloads the page once. The result's \<open>seedUri\<close> is
  \<^verbatim>\<open>http://a.test/y\<close>, not the URL first passed to \<^verbatim>\<open>navigateToUrl\<close>.
\<close>

theorem seedUri_follows_last_reload_witness:
  "requestUrl (readySession redirectedDeps (Some [])) = Some ''http://a.test/x''
 \<and> map (\<lambda>r. url (fst r))
       (reloads redirectedDeps
          (scanPageForPrivacy redirectedDeps (page (readySession redirectedDeps (Some []))))
          (readySession redirectedDeps (Some []))) = [''http://a.test/y'']
 \<and> fst (scanForPrivacy redirectedDeps (readySession redirectedDeps (Some []))) =
     Inr (privacyOk 200 ''http://a.test/y'' noErrors)
 \<and> seedUri (noErrors\<lparr>httpStatusCode := Some 200, seedUri := Some ''http://a.test/y''\<rparr>) =
     (case reloads redirectedDeps
             (scanPageForPrivacy redirectedDeps (page (readySession redirectedDeps (Some []))))
             (readySession redirectedDeps (Some [])) of
        [] \<Rightarrow> requestUrl (readySession redirectedDeps (Some []))
      | r # rs \<Rightarrow> Some (url (fst (last (r # rs)))))"
proof -
  let ?d = redirectedDeps
  let ?s = "readySession redirectedDeps (Some [])"
  have q: "requestUrl ?s = Some ''http://a.test/x''"
    by (simp add: eval_defs)
  have l: "map (\<lambda>r. url (fst r)) (reloads ?d (scanPageForPrivacy ?d (page ?s)) ?s) =
             [''http://a.test/y'']"
    by (simp add: eval_defs)
  have p: "fst (scanForPrivacy ?d ?s) = Inr (privacyOk 200 ''http://a.test/y'' noErrors)"
    by (simp add: eval_defs)
  then have p': "scanForPrivacy ?d ?s =
      (Inr (privacyOk 200 ''http://a.test/y'' noErrors), snd (scanForPrivacy ?d ?s))"
    by (simp add: prod_eq_iff)
  have rp: "results (privacyOk 200 ''http://a.test/y'' noErrors) =
              Some (noErrors\<lparr>httpStatusCode := Some 200, seedUri := Some ''http://a.test/y''\<rparr>)"
    by (simp add: privacyOk_def)
  note t = seedUri_follows_last_reload [OF p' rp]
  show ?thesis
    by (intro conjI q l p t)
qed

end
